theory Spec2Isabelle
  imports Complex_Main "HOL-Library.AList"
begin

text \<open>
  A model of the search core of the browser extension: the document normalizer, the
  index store and the query engine of \<open>src/lib/indexer.ts\<close> (class \<open>SearchIndexer\<close>) and the
  context assembly of \<open>src/background/worker.ts\<close> (\<open>handleChatRequest\<close>). Asynchronous
  methods are functions on an explicit state; a method that can end in more than one way
  returns how it ended together with the state it leaves.
\<close>

section \<open>JavaScript strings\<close>

text \<open>
  A JavaScript string is a sequence of UTF-16 code units; \<open>length\<close>, \<open>substring\<close>,
  \<open>includes\<close> and the regular expressions of \<open>src/lib/indexer.ts\<close> (none carries the
  \<open>u\<close> flag) all count code units. A string is therefore a list of code units, a code
  unit a natural number. \<open>js\<close> embeds an ASCII literal; the Chinese literals of the source
  are written as their code units.

  \<open>toLowerCase\<close> follows the lower-case mappings of the Unicode character database
  (version 14) on the Basic Multilingual Plane: \<open>lowerRanges\<close> lists the ranges of code
  units that map onto a range starting at the third component, \<open>lowerPairs\<close> the ranges
  in which every second code unit maps to its successor, and U+0130 maps to the two code
  units U+0069 U+0307. Two parts of the conversion are left out: a capital sigma at the
  end of a word is lower-cased like any other one, and letters outside the Basic
  Multilingual Plane (surrogate pairs) are left as they are.
\<close>

type_synonym jsstring = "nat list"

definition js :: "string \<Rightarrow> jsstring" where
  "js s = map of_char s"

definition lowerRanges :: "(nat \<times> nat \<times> nat) list" where
  "lowerRanges =
     [(192, 214, 224), (216, 222, 248), (376, 376, 255), (385, 385, 595), (390, 390, 596),
      (391, 391, 392), (393, 394, 598), (395, 395, 396), (398, 398, 477), (399, 399, 601),
      (400, 400, 603), (401, 401, 402), (403, 403, 608), (404, 404, 611), (406, 406, 617),
      (407, 407, 616), (408, 408, 409), (412, 412, 623), (413, 413, 626), (415, 415, 629),
      (422, 422, 640), (423, 423, 424), (425, 425, 643), (428, 428, 429), (430, 430, 648),
      (431, 431, 432), (433, 434, 650), (439, 439, 658), (440, 440, 441), (444, 444, 445),
      (452, 452, 454), (453, 453, 454), (455, 455, 457), (456, 456, 457), (458, 458, 460),
      (497, 497, 499), (502, 502, 405), (503, 503, 447), (544, 544, 414),
      (570, 570, 11365), (571, 571, 572), (573, 573, 410), (574, 574, 11366),
      (577, 577, 578), (579, 579, 384), (580, 580, 649), (581, 581, 652), (886, 886, 887),
      (895, 895, 1011), (902, 902, 940), (904, 906, 941), (908, 908, 972), (910, 911, 973),
      (913, 929, 945), (931, 939, 963), (975, 975, 983), (1012, 1012, 952),
      (1015, 1015, 1016), (1017, 1017, 1010), (1018, 1018, 1019), (1021, 1023, 891),
      (1024, 1039, 1104), (1040, 1071, 1072), (1216, 1216, 1231), (1329, 1366, 1377),
      (4256, 4293, 11520), (4295, 4295, 11559), (4301, 4301, 11565), (5024, 5103, 43888),
      (5104, 5109, 5112), (7312, 7354, 4304), (7357, 7359, 4349), (7838, 7838, 223),
      (7944, 7951, 7936), (7960, 7965, 7952), (7976, 7983, 7968), (7992, 7999, 7984),
      (8008, 8013, 8000), (8025, 8025, 8017), (8027, 8027, 8019), (8029, 8029, 8021),
      (8031, 8031, 8023), (8040, 8047, 8032), (8072, 8079, 8064), (8088, 8095, 8080),
      (8104, 8111, 8096), (8120, 8121, 8112), (8122, 8123, 8048), (8124, 8124, 8115),
      (8136, 8139, 8050), (8140, 8140, 8131), (8152, 8153, 8144), (8154, 8155, 8054),
      (8168, 8169, 8160), (8170, 8171, 8058), (8172, 8172, 8165), (8184, 8185, 8056),
      (8186, 8187, 8060), (8188, 8188, 8179), (8486, 8486, 969), (8490, 8490, 107),
      (8491, 8491, 229), (8498, 8498, 8526), (8544, 8559, 8560), (8579, 8579, 8580),
      (9398, 9423, 9424), (11264, 11311, 11312), (11360, 11360, 11361),
      (11362, 11362, 619), (11363, 11363, 7549), (11364, 11364, 637), (11373, 11373, 593),
      (11374, 11374, 625), (11375, 11375, 592), (11376, 11376, 594), (11378, 11378, 11379),
      (11381, 11381, 11382), (11390, 11391, 575), (11506, 11506, 11507),
      (42877, 42877, 7545), (42891, 42891, 42892), (42893, 42893, 613),
      (42922, 42922, 614), (42923, 42923, 604), (42924, 42924, 609), (42925, 42925, 620),
      (42926, 42926, 618), (42928, 42928, 670), (42929, 42929, 647), (42930, 42930, 669),
      (42931, 42931, 43859), (42948, 42948, 42900), (42949, 42949, 642),
      (42950, 42950, 7566), (42960, 42960, 42961), (42997, 42997, 42998),
      (65313, 65338, 65345)]"

definition lowerPairs :: "(nat \<times> nat) list" where
  "lowerPairs =
     [(256, 302), (306, 310), (313, 327), (330, 374), (377, 381), (386, 388), (416, 420),
      (435, 437), (459, 475), (478, 494), (498, 500), (504, 542), (546, 562), (582, 590),
      (880, 882), (984, 1006), (1120, 1152), (1162, 1214), (1217, 1229), (1232, 1326),
      (7680, 7828), (7840, 7934), (11367, 11371), (11392, 11490), (11499, 11501),
      (42560, 42604), (42624, 42650), (42786, 42798), (42802, 42862), (42873, 42875),
      (42878, 42886), (42896, 42898), (42902, 42920), (42932, 42946), (42951, 42953),
      (42966, 42968)]"

definition toLowerUnit :: "nat \<Rightarrow> jsstring" where
  "toLowerUnit c =
     (if c < 192 then (if 65 \<le> c \<and> c \<le> 90 then [c + 32] else [c])
      else if c = 304 then [105, 775]
      else (case find (\<lambda>(lo, hi, t). lo \<le> c \<and> c \<le> hi) lowerRanges of
              Some (lo, hi, t) \<Rightarrow> [t + (c - lo)]
            | None \<Rightarrow>
                (case find (\<lambda>(lo, hi). lo \<le> c \<and> c \<le> hi \<and> even (c - lo)) lowerPairs of
                   Some p \<Rightarrow> [c + 1]
                 | None \<Rightarrow> [c])))"

definition toLowerCase :: "jsstring \<Rightarrow> jsstring" where
  "toLowerCase s = concat (map toLowerUnit s)"

text \<open>The characters removed by \<open>trim\<close> and matched by \<open>\s\<close>: WhiteSpace and LineTerminator.\<close>

definition isWhiteSpace :: "nat \<Rightarrow> bool" where
  "isWhiteSpace c \<longleftrightarrow>
     c = 9 \<or> c = 10 \<or> c = 11 \<or> c = 12 \<or> c = 13 \<or> c = 32 \<or> c = 160 \<or> c = 5760 \<or>
     (8192 \<le> c \<and> c \<le> 8202) \<or> c = 8232 \<or> c = 8233 \<or> c = 8239 \<or> c = 8287 \<or>
     c = 12288 \<or> c = 65279"

text \<open>The characters the regular-expression dot does not match.\<close>

definition isLineTerminator :: "nat \<Rightarrow> bool" where
  "isLineTerminator c \<longleftrightarrow> c = 10 \<or> c = 13 \<or> c = 8232 \<or> c = 8233"

text \<open>\<open>\w\<close>, the class \<open>[a-zA-Z]\<close> and the class of the code units 4e00 to 9fff.\<close>

definition isWordChar :: "nat \<Rightarrow> bool" where
  "isWordChar c \<longleftrightarrow>
     (48 \<le> c \<and> c \<le> 57) \<or> (65 \<le> c \<and> c \<le> 90) \<or> c = 95 \<or> (97 \<le> c \<and> c \<le> 122)"

definition isAsciiLetter :: "nat \<Rightarrow> bool" where
  "isAsciiLetter c \<longleftrightarrow> (65 \<le> c \<and> c \<le> 90) \<or> (97 \<le> c \<and> c \<le> 122)"

definition isCJK :: "nat \<Rightarrow> bool" where
  "isCJK c \<longleftrightarrow> 19968 \<le> c \<and> c \<le> 40959"

definition trim :: "jsstring \<Rightarrow> jsstring" where
  "trim s = rev (dropWhile isWhiteSpace (rev (dropWhile isWhiteSpace s)))"

definition startsWith :: "jsstring \<Rightarrow> jsstring \<Rightarrow> bool" where
  "startsWith s p \<longleftrightarrow> take (length p) s = p"

fun includesStr :: "jsstring \<Rightarrow> jsstring \<Rightarrow> bool" where
  "includesStr [] p = (p = [])"
| "includesStr (c # cs) p = (startsWith (c # cs) p \<or> includesStr cs p)"

definition substring0 :: "jsstring \<Rightarrow> nat \<Rightarrow> jsstring" where
  "substring0 s n = take n s"

text \<open>
  \<open>s.split(/\s+/)\<close>: the pieces between the maximal runs of white space; a separator at
  either end leaves an empty piece there, and the empty string splits into one empty piece.
\<close>

fun splitWs :: "jsstring \<Rightarrow> bool \<Rightarrow> jsstring \<Rightarrow> jsstring list" where
  "splitWs cur insep [] = [rev cur]"
| "splitWs cur insep (c # cs) =
     (if isWhiteSpace c
      then (if insep then splitWs cur True cs else rev cur # splitWs [] True cs)
      else splitWs (c # cur) False cs)"

text \<open>\<open>s.match(/[class]+/g) || []\<close>: the maximal runs of characters of a class, left to right.\<close>

fun runs :: "(nat \<Rightarrow> bool) \<Rightarrow> jsstring \<Rightarrow> jsstring \<Rightarrow> jsstring list" where
  "runs P cur [] = (if cur = [] then [] else [rev cur])"
| "runs P cur (c # cs) =
     (if P c then runs P (c # cur) cs
      else if cur = [] then runs P [] cs
      else rev cur # runs P [] cs)"

section \<open>The regular expressions of the query classifier\<close>

text \<open>
  The patterns of \<open>search\<close> are alternations of sequences of literals, \<open>.*\<close>, \<open>.?\<close> and
  optional literals.
  \<open>regexTest ci r s\<close> is \<open>r.test(s)\<close>: some alternative matches at some position. With
  the \<open>i\<close> flag (\<open>ci\<close>) two code units match when their canonical forms are equal; without
  the \<open>u\<close> flag a code unit above 127 is never canonicalised to an ASCII one, and no
  character has a CJK ideograph as its upper case, so on these patterns the canonical form
  is the ASCII upper case.
\<close>

datatype re_atom = Lit jsstring | AnyStar | AnyOpt | OptLit jsstring

type_synonym regex = "re_atom list list"

definition canonicalize :: "nat \<Rightarrow> nat" where
  "canonicalize c = (if 97 \<le> c \<and> c \<le> 122 then c - 32 else c)"

definition litMatch :: "bool \<Rightarrow> jsstring \<Rightarrow> jsstring \<Rightarrow> bool" where
  "litMatch ci l s \<longleftrightarrow>
     length l \<le> length s \<and>
     (if ci then map canonicalize (take (length l) s) = map canonicalize l
      else take (length l) s = l)"

fun matchHere :: "bool \<Rightarrow> re_atom list \<Rightarrow> jsstring \<Rightarrow> bool" where
  "matchHere ci [] s = True"
| "matchHere ci (Lit l # as) s = (litMatch ci l s \<and> matchHere ci as (drop (length l) s))"
| "matchHere ci (OptLit l # as) s =
     (matchHere ci as s \<or> (litMatch ci l s \<and> matchHere ci as (drop (length l) s)))"
| "matchHere ci (AnyOpt # as) s =
     (matchHere ci as s \<or>
      (case s of [] \<Rightarrow> False | c # cs \<Rightarrow> \<not> isLineTerminator c \<and> matchHere ci as cs))"
| "matchHere ci (AnyStar # as) s =
     (matchHere ci as s \<or>
      (case s of [] \<Rightarrow> False
       | c # cs \<Rightarrow> \<not> isLineTerminator c \<and> matchHere ci (AnyStar # as) cs))"

fun regexTest :: "bool \<Rightarrow> regex \<Rightarrow> jsstring \<Rightarrow> bool" where
  "regexTest ci r [] = list_ex (\<lambda>alt. matchHere ci alt []) r"
| "regexTest ci r (c # cs) =
     (list_ex (\<lambda>alt. matchHere ci alt (c # cs)) r \<or> regexTest ci r cs)"

text \<open>
  \<open>/list|show|display|what.*do.*have|...|.../i\<close>, \<open>/bookmarks?|.../i\<close>,
  \<open>/history|...|.../i\<close> and \<open>/reading.?list|...|.../i\<close>, in the order of the array
  \<open>listAllPatterns\<close>; \<open>reBookmark\<close> is \<open>/bookmark|.../i\<close>, the test behind \<open>wantBookmarks\<close>,
  while \<open>wantHistory\<close> and \<open>wantReadingList\<close> repeat the patterns of the array.
\<close>

definition reListing :: regex where
  "reListing =
     [[Lit (js ''list'')], [Lit (js ''show'')], [Lit (js ''display'')],
      [Lit (js ''what''), AnyStar, Lit (js ''do''), AnyStar, Lit (js ''have'')],
      [Lit [25105, 30340], AnyStar, Lit [26377, 20160, 20040]],
      [Lit [26174, 31034], AnyStar, Lit [25152, 26377]],
      [Lit [21015, 20986]]]"

definition reBookmarks :: regex where
  "reBookmarks = [[Lit (js ''bookmark''), OptLit (js ''s'')], [Lit [20070, 31614]]]"

definition reBookmark :: regex where
  "reBookmark = [[Lit (js ''bookmark'')], [Lit [20070, 31614]]]"

definition reHistory :: regex where
  "reHistory = [[Lit (js ''history'')], [Lit [21382, 21490]], [Lit [27983, 35272, 35760, 24405]]]"

definition reReadingList :: regex where
  "reReadingList =
     [[Lit (js ''reading''), AnyOpt, Lit (js ''list'')],
      [Lit [38405, 35835, 28165, 21333]], [Lit [38405, 35835, 21015, 34920]]]"

definition listAllPatterns :: "regex list" where
  "listAllPatterns = [reListing, reBookmarks, reHistory, reReadingList]"

definition isListAllQuery :: "jsstring \<Rightarrow> bool" where
  "isListAllQuery query = list_ex (\<lambda>pattern. regexTest True pattern query) listAllPatterns"

definition wantBookmarks :: "jsstring \<Rightarrow> bool" where
  "wantBookmarks query = regexTest True reBookmark query"

definition wantHistory :: "jsstring \<Rightarrow> bool" where
  "wantHistory query = regexTest True reHistory query"

definition wantReadingList :: "jsstring \<Rightarrow> bool" where
  "wantReadingList query = regexTest True reReadingList query"

text \<open>
  The classification as the specification words it: the enumerate vocabulary is a table
  of listing phrases in English and Chinese, and a query has enumeration intent when its
  lower-cased form matches one of them.
\<close>

definition enumerateVocabulary :: regex where
  "enumerateVocabulary =
     [[Lit (js ''list'')], [Lit (js ''show'')], [Lit (js ''display'')],
      [Lit (js ''what''), AnyStar, Lit (js ''do''), AnyStar, Lit (js ''have'')],
      [Lit [25105, 30340], AnyStar, Lit [26377, 20160, 20040]],
      [Lit [26174, 31034], AnyStar, Lit [25152, 26377]],
      [Lit [21015, 20986]]]"

definition enumerationIntent :: "jsstring \<Rightarrow> bool" where
  "enumerationIntent query = regexTest False enumerateVocabulary (toLowerCase query)"

section \<open>Cleaning the query and extracting the search terms\<close>

text \<open>
  \<open>.replace(/\b(list|show|find|get|my|the|a|an|...)\b/g, '')\<close>: scanning left to right,
  at a word boundary the first alternative that is followed by a word boundary is removed
  and the scan resumes behind it. The boundaries are those of the string scanned, so the
  character before a position is passed along, and \<open>skip\<close> counts the characters of a
  match still to be dropped.
\<close>

definition stopWords :: "jsstring list" where
  "stopWords =
     [js ''list'', js ''show'', js ''find'', js ''get'', js ''my'', js ''the'', js ''a'',
      js ''an'', [25105, 30340], [26174, 31034], [21015, 20986], [26597, 25214]]"

definition isWordAt :: "nat option \<Rightarrow> bool" where
  "isWordAt c = (case c of None \<Rightarrow> False | Some x \<Rightarrow> isWordChar x)"

definition wordBoundary :: "nat option \<Rightarrow> nat option \<Rightarrow> bool" where
  "wordBoundary a b \<longleftrightarrow> isWordAt a \<noteq> isWordAt b"

definition charAt :: "jsstring \<Rightarrow> nat \<Rightarrow> nat option" where
  "charAt s i = (if i < length s then Some (s ! i) else None)"

definition matchStopWord :: "nat option \<Rightarrow> jsstring \<Rightarrow> jsstring option" where
  "matchStopWord prev s =
     (if wordBoundary prev (charAt s 0)
      then find (\<lambda>w. startsWith s w \<and> wordBoundary (charAt s (length w - 1)) (charAt s (length w)))
             stopWords
      else None)"

fun removeStopWords :: "nat option \<Rightarrow> nat \<Rightarrow> jsstring \<Rightarrow> jsstring" where
  "removeStopWords prev skip [] = []"
| "removeStopWords prev skip (c # cs) =
     (if 0 < skip then removeStopWords (Some c) (skip - 1) cs
      else (case matchStopWord prev (c # cs) of
              Some w \<Rightarrow> removeStopWords (Some c) (length w - 1) cs
            | None \<Rightarrow> c # removeStopWords (Some c) 0 cs))"

definition cleanQuery :: "jsstring \<Rightarrow> jsstring" where
  "cleanQuery query = trim (removeStopWords None 0 (toLowerCase query))"

definition extractTerms :: "jsstring \<Rightarrow> jsstring list" where
  "extractTerms cq =
     (if list_ex isCJK cq
      then filter (\<lambda>term. 0 < length term) (runs isCJK [] cq @ runs isAsciiLetter [] cq)
      else filter (\<lambda>term. 2 < length term) (splitWs [] False cq))"

section \<open>The data model (types/models.ts)\<close>

text \<open>
  Only the fields the indexer reads are kept. Time stamps are epoch milliseconds; the
  scores are sums of 10, 5, 2, 1 and 0.5 and quotients of small integers, modelled as
  rationals, where the code adds doubles: two sums that are equal as rationals may be
  ordered either way by the code, and nothing below depends on the order of such ties. The \<open>children\<close> of a bookmark node are a list, empty where the field is absent:
  the source only iterates over them. Optional fields are options.
\<close>

datatype item_type = Bookmark | History | ReadingList

record IndexedItem =
  ii_id :: jsstring
  ii_title :: jsstring
  ii_url :: jsstring
  ii_content :: jsstring
  ii_type :: item_type
  ii_timestamp :: int
  ii_snippet :: "jsstring option"

datatype BookmarkItem =
  BookmarkItem (b_id: jsstring) (b_title: jsstring) (b_url: "jsstring option")
    (b_dateAdded: "int option") (b_children: "BookmarkItem list")

record HistoryItem =
  h_id :: jsstring
  h_url :: "jsstring option"
  h_title :: "jsstring option"
  h_lastVisitTime :: "int option"

record ReadingListItem =
  r_title :: jsstring
  r_url :: jsstring
  r_creationTime :: int

record SearchResult =
  item :: IndexedItem
  score :: rat
  relevance :: rat

record EnabledSources =
  bookmarks :: bool
  history :: bool
  readingList :: bool

record AppSettings =
  enabledSources :: EnabledSources
  settings_maxResults :: nat

record ContextEntry =
  c_title :: jsstring
  c_url :: jsstring
  c_snippet :: jsstring
  c_type :: item_type
  c_timestamp :: int

record Stats =
  totalItems :: nat
  indexSize :: nat

section \<open>The document normalizer\<close>

text \<open>
  \<open>x || d\<close> on an optional string and on an optional number: the default is taken when the
  value is absent, the empty string or zero. \<open>now\<close> is the value of \<open>Date.now()\<close>.
\<close>

definition strOr :: "jsstring option \<Rightarrow> jsstring \<Rightarrow> jsstring" where
  "strOr x d = (case x of None \<Rightarrow> d | Some s \<Rightarrow> if s = [] then d else s)"

definition numOr :: "int option \<Rightarrow> int \<Rightarrow> int" where
  "numOr x d = (case x of None \<Rightarrow> d | Some n \<Rightarrow> if n = 0 then d else n)"

definition truthy :: "jsstring option \<Rightarrow> bool" where
  "truthy x \<longleftrightarrow> (case x of None \<Rightarrow> False | Some s \<Rightarrow> s \<noteq> [])"

definition generateSnippet :: "jsstring \<Rightarrow> jsstring" where
  "generateSnippet content =
     (if length content \<le> 200 then content else trim (substring0 content 200) @ js ''...'')"

fun processBookmark :: "int \<Rightarrow> BookmarkItem \<Rightarrow> IndexedItem list" where
  "processBookmark now (BookmarkItem bid btitle burl dateAdded children) =
     (if truthy burl
      then (let content = trim (btitle @ js '' '' @ strOr burl [])
            in [\<lparr>ii_id = js ''bookmark_'' @ bid,
                 ii_title = strOr (Some btitle) (js ''Untitled''),
                 ii_url = strOr burl [],
                 ii_content = content,
                 ii_type = Bookmark,
                 ii_timestamp = numOr dateAdded now,
                 ii_snippet = Some (generateSnippet content)\<rparr>])
      else [])
     @ concat (map (processBookmark now) children)"

definition convertBookmarksToIndexedItems :: "int \<Rightarrow> BookmarkItem list \<Rightarrow> IndexedItem list" where
  "convertBookmarksToIndexedItems now bms = concat (map (processBookmark now) bms)"

definition historyToIndexedItem :: "int \<Rightarrow> HistoryItem \<Rightarrow> IndexedItem" where
  "historyToIndexedItem now h =
     (let content = trim (strOr (h_title h) [] @ js '' '' @ strOr (h_url h) [])
      in \<lparr>ii_id = js ''history_'' @ h_id h,
          ii_title = strOr (h_title h) (js ''Untitled''),
          ii_url = strOr (h_url h) [],
          ii_content = content,
          ii_type = History,
          ii_timestamp = numOr (h_lastVisitTime h) now,
          ii_snippet = Some (generateSnippet content)\<rparr>)"

definition convertHistoryToIndexedItems :: "int \<Rightarrow> HistoryItem list \<Rightarrow> IndexedItem list" where
  "convertHistoryToIndexedItems now hs =
     map (historyToIndexedItem now) (filter (\<lambda>h. truthy (h_url h) \<and> truthy (h_title h)) hs)"

definition readingToIndexedItem :: "ReadingListItem \<Rightarrow> IndexedItem" where
  "readingToIndexedItem r =
     (let content = trim (r_title r @ js '' '' @ r_url r)
      in \<lparr>ii_id = js ''reading_'' @ r_url r,
          ii_title = r_title r,
          ii_url = r_url r,
          ii_content = content,
          ii_type = ReadingList,
          ii_timestamp = r_creationTime r,
          ii_snippet = Some (generateSnippet content)\<rparr>)"

definition convertReadingListToIndexedItems :: "ReadingListItem list \<Rightarrow> IndexedItem list" where
  "convertReadingListToIndexedItems rs = map readingToIndexedItem rs"

section \<open>The text index and the state\<close>

text \<open>
  The text index is the FlexSearch library, which is not part of the repository. Its
  operations are a parameter: \<open>fs_new\<close> is \<open>new FlexSearch.Index({...})\<close>, and \<open>add\<close>,
  \<open>remove\<close> and \<open>search\<close> either return or throw (a throwing \<open>add\<close> or \<open>remove\<close> is taken
  to leave the index as it was). \<open>export\<close> hands the serialized index to a callback under
  the key \<open>index\<close>, throws, or never calls back with that key; in the last case the
  promise \<open>persistIndex\<close> awaits stays pending.
\<close>

datatype exn = Thrown

datatype export_outcome = Exported jsstring | ExportThrows | ExportSilent

record 'ix FlexSearch =
  fs_new :: 'ix
  fs_add :: "'ix \<Rightarrow> jsstring \<Rightarrow> jsstring \<Rightarrow> exn + 'ix"
  fs_remove :: "'ix \<Rightarrow> jsstring \<Rightarrow> exn + 'ix"
  fs_search :: "'ix \<Rightarrow> jsstring \<Rightarrow> nat \<Rightarrow> exn + jsstring list"
  fs_export :: "'ix \<Rightarrow> export_outcome"

text \<open>
  The state: the three private fields of \<open>SearchIndexer\<close> and the storage keys it reads
  and writes through \<open>storage\<close>, whose \<open>get\<close> and \<open>set\<close> never throw. The \<open>Map\<close> of
  documents is an association list in insertion order: \<open>set\<close> on a key already present
  replaces the value in place, on a new key appends (\<open>AList.update\<close>); \<open>delete\<close> is
  \<open>AList.delete\<close>, \<open>get\<close> is \<open>map_of\<close> and \<open>values()\<close> is \<open>map snd\<close>.
\<close>

record 'ix world =
  index :: 'ix
  items :: "(jsstring \<times> IndexedItem) list"
  isInitialized :: bool
  st_bookmarks :: "BookmarkItem list"
  st_history :: "HistoryItem list"
  st_readingList :: "ReadingListItem list"
  st_indexedItems :: "IndexedItem list"
  st_searchIndex :: "jsstring option"

datatype storage_key = BOOKMARKS | HISTORY | READING_LIST | INDEXED_ITEMS | SEARCH_INDEX

text \<open>How an asynchronous operation ends: its promise resolves, rejects, or stays pending.\<close>

datatype outcome = Resolved | Rejected | Pending

definition addToIndex :: "'ix FlexSearch \<Rightarrow> 'ix world \<Rightarrow> IndexedItem \<Rightarrow> 'ix world" where
  "addToIndex L w it =
     w\<lparr>index := (case fs_add L (index w) (ii_id it) (ii_content it) of
                   Inl e \<Rightarrow> index w | Inr ix \<Rightarrow> ix),
       items := AList.update (ii_id it) it (items w)\<rparr>"

text \<open>
  \<open>initialize\<close>: the two diagnostic searches after the reload are only logged, and whether
  they return or throw the flag is set, so they leave no trace in the state.
\<close>

definition initialize :: "'ix FlexSearch \<Rightarrow> 'ix world \<Rightarrow> 'ix world" where
  "initialize L w =
     (if isInitialized w then w
      else (let indexedItems = st_indexedItems w
            in (if 0 < length indexedItems
                then foldl (addToIndex L) (w\<lparr>index := fs_new L, items := []\<rparr>) indexedItems
                else w)\<lparr>isInitialized := True\<rparr>))"

definition persistIndex :: "'ix FlexSearch \<Rightarrow> 'ix world \<Rightarrow> 'ix world option" where
  "persistIndex L w =
     (case fs_export L (index w) of
        Exported d \<Rightarrow> Some (w\<lparr>st_searchIndex := Some d\<rparr>)
      | ExportThrows \<Rightarrow> Some w
      | ExportSilent \<Rightarrow> None)"

text \<open>
  \<open>rebuildIndex\<close> runs in three stretches separated by its \<open>await\<close>s: it replaces the index
  and clears the map, then awaits the three storage reads; it converts what it read and
  adds every item, then awaits \<open>persistIndex\<close>; it then writes the items to storage.
  \<open>rebuildSuspensions\<close> lists the state at each \<open>await\<close>, which is what any other call
  scheduled meanwhile finds.
\<close>

definition rebuildClear :: "'ix FlexSearch \<Rightarrow> 'ix world \<Rightarrow> 'ix world" where
  "rebuildClear L w = w\<lparr>index := fs_new L, items := []\<rparr>"

definition rebuildFill :: "'ix FlexSearch \<Rightarrow> int \<Rightarrow> 'ix world \<Rightarrow> 'ix world" where
  "rebuildFill L now w =
     (let indexedItems =
            convertBookmarksToIndexedItems now (st_bookmarks w) @
            convertHistoryToIndexedItems now (st_history w) @
            convertReadingListToIndexedItems (st_readingList w)
      in foldl (addToIndex L) w indexedItems)"

definition rebuildIndex :: "'ix FlexSearch \<Rightarrow> int \<Rightarrow> 'ix world \<Rightarrow> outcome \<times> 'ix world" where
  "rebuildIndex L now w =
     (let w1 = rebuildClear L w;
          w2 = rebuildFill L now w1
      in case persistIndex L w2 of
           None \<Rightarrow> (Pending, w2)
         | Some w3 \<Rightarrow> (Resolved, w3\<lparr>st_indexedItems := map snd (items w3)\<rparr>))"

definition rebuildSuspensions :: "'ix FlexSearch \<Rightarrow> int \<Rightarrow> 'ix world \<Rightarrow> 'ix world list" where
  "rebuildSuspensions L now w =
     (let w1 = rebuildClear L w;
          w2 = rebuildFill L now w1
      in w1 # w2 # (case persistIndex L w2 of None \<Rightarrow> [] | Some w3 \<Rightarrow> [w3]))"

definition addItem :: "'ix FlexSearch \<Rightarrow> 'ix world \<Rightarrow> IndexedItem \<Rightarrow> outcome \<times> 'ix world" where
  "addItem L w it =
     (let w1 = (if \<not> isInitialized w then initialize L w else w);
          w2 = addToIndex L w1 it
      in case persistIndex L w2 of
           None \<Rightarrow> (Pending, w2)
         | Some w3 \<Rightarrow> (Resolved, w3\<lparr>st_indexedItems := st_indexedItems w3 @ [it]\<rparr>))"

definition removeItem :: "'ix FlexSearch \<Rightarrow> 'ix world \<Rightarrow> jsstring \<Rightarrow> outcome \<times> 'ix world" where
  "removeItem L w itemId =
     (let w1 = (if \<not> isInitialized w then initialize L w else w)
      in case fs_remove L (index w1) itemId of
           Inl e \<Rightarrow> (Rejected, w1)
         | Inr ix \<Rightarrow>
             (let w2 = w1\<lparr>index := ix, items := AList.delete itemId (items w1)\<rparr>
              in case persistIndex L w2 of
                   None \<Rightarrow> (Pending, w2)
                 | Some w3 \<Rightarrow>
                     (Resolved,
                      w3\<lparr>st_indexedItems :=
                           filter (\<lambda>x. ii_id x \<noteq> itemId) (st_indexedItems w3)\<rparr>)))"

definition updateItem :: "'ix FlexSearch \<Rightarrow> 'ix world \<Rightarrow> IndexedItem \<Rightarrow> outcome \<times> 'ix world" where
  "updateItem L w it =
     (case removeItem L w (ii_id it) of
        (Resolved, w1) \<Rightarrow> addItem L w1 it
      | (out, w1) \<Rightarrow> (out, w1))"

definition clearIndex :: "'ix FlexSearch \<Rightarrow> 'ix world \<Rightarrow> outcome \<times> 'ix world" where
  "clearIndex L w =
     (Resolved, w\<lparr>index := fs_new L, items := [], st_searchIndex := Some [],
                  st_indexedItems := []\<rparr>)"

text \<open>
  \<open>storage.getSearchIndex\<close> is \<open>result[key] || null\<close>. \<open>getStats\<close> returns the statistics
  together with the storage keys it read.
\<close>

definition getSearchIndex :: "'ix world \<Rightarrow> jsstring option" where
  "getSearchIndex w =
     (case st_searchIndex w of None \<Rightarrow> None | Some s \<Rightarrow> if s = [] then None else Some s)"

definition getStats :: "'ix world \<Rightarrow> Stats \<times> storage_key list" where
  "getStats w =
     (if \<not> isInitialized w then (\<lparr>totalItems = 0, indexSize = 0\<rparr>, [])
      else (let serializedIndex = getSearchIndex w;
                size = (case serializedIndex of None \<Rightarrow> 0 | Some s \<Rightarrow> length s)
            in (\<lparr>totalItems = length (items w), indexSize = size\<rparr>, [SEARCH_INDEX])))"

section \<open>The query engine\<close>

text \<open>
  \<open>maxResults\<close> is a count, a natural number; \<open>now\<close> is the value of \<open>Date.now()\<close>.
\<close>

definition calculateRelevanceScore :: "int \<Rightarrow> jsstring \<Rightarrow> IndexedItem \<Rightarrow> rat" where
  "calculateRelevanceScore now query it =
     (let queryLower = toLowerCase query;
          titleLower = toLowerCase (ii_title it);
          contentLower = toLowerCase (ii_content it);
          daysSinceCreation = (of_int (now - ii_timestamp it) :: rat) / (1000 * 60 * 60 * 24)
      in (if titleLower = queryLower then 10 else 0) +
         (if includesStr titleLower queryLower then 5 else 0) +
         (if includesStr contentLower queryLower then 2 else 0) +
         (if daysSinceCreation < 30 then 1 else 0) +
         (if ii_type it = Bookmark then 1 / 2 else 0))"

text \<open>\<open>(maxResults - index) / maxResults\<close>.\<close>

definition positionRelevance :: "nat \<Rightarrow> nat \<Rightarrow> rat" where
  "positionRelevance maxResults i = (of_nat maxResults - of_nat i) / of_nat maxResults"

definition includeTypes :: "jsstring \<Rightarrow> item_type list" where
  "includeTypes query =
     (let wb = wantBookmarks query; wh = wantHistory query; wr = wantReadingList query
      in (if wb \<or> (\<not> wb \<and> \<not> wh \<and> \<not> wr) then [Bookmark] else []) @
         (if wh \<or> (\<not> wb \<and> \<not> wh \<and> \<not> wr) then [History] else []) @
         (if wr \<or> (\<not> wb \<and> \<not> wh \<and> \<not> wr) then [ReadingList] else []))"

text \<open>
  The list-all branch. \<open>Array.prototype.sort\<close> is stable, and so is \<open>sort_key\<close>; sorting
  on the negated time stamp puts the newest first.
\<close>

definition listAllSearch :: "(jsstring \<times> IndexedItem) list \<Rightarrow> jsstring \<Rightarrow> nat \<Rightarrow> SearchResult list" where
  "listAllSearch its query maxResults =
     (let filteredItems =
            take maxResults
              (sort_key (\<lambda>x. - ii_timestamp x)
                 (filter (\<lambda>x. ii_type x \<in> set (includeTypes query)) (map snd its)))
      in map (\<lambda>(i, x). \<lparr>item = x, score = 10, relevance = positionRelevance maxResults i\<rparr>)
           (enumerate 0 filteredItems))"

text \<open>
  The keyword branch: one index search per term with the limit \<open>maxResults * 2\<close>, the
  results appended in order (the first throw ends the loop), duplicates removed keeping
  the first occurrence as \<open>new Set\<close> does, the first \<open>min(length, maxResults)\<close> ids looked
  up and scored, and the results sorted by \<open>score + relevance\<close>, highest first.
\<close>

fun searchEachTerm :: "'ix FlexSearch \<Rightarrow> 'ix \<Rightarrow> nat \<Rightarrow> jsstring list \<Rightarrow> exn + jsstring list" where
  "searchEachTerm L ix cap [] = Inr []"
| "searchEachTerm L ix cap (t # ts) =
     (case fs_search L ix t cap of
        Inl e \<Rightarrow> Inl e
      | Inr termResults \<Rightarrow>
          (case searchEachTerm L ix cap ts of
             Inl e \<Rightarrow> Inl e
           | Inr rest \<Rightarrow> Inr (termResults @ rest)))"

fun dedupe :: "'a list \<Rightarrow> 'a list \<Rightarrow> 'a list" where
  "dedupe seen [] = []"
| "dedupe seen (x # xs) = (if x \<in> set seen then dedupe seen xs else x # dedupe (x # seen) xs)"

definition rawMatches :: "'ix FlexSearch \<Rightarrow> 'ix world \<Rightarrow> jsstring \<Rightarrow> nat \<Rightarrow> exn + jsstring list" where
  "rawMatches L w query maxResults =
     (case searchEachTerm L (index w) (maxResults * 2) (extractTerms (cleanQuery query)) of
        Inl e \<Rightarrow> Inl e
      | Inr searchResults \<Rightarrow> Inr (dedupe [] searchResults))"

definition scoreMatches ::
  "int \<Rightarrow> (jsstring \<times> IndexedItem) list \<Rightarrow> jsstring \<Rightarrow> nat \<Rightarrow> jsstring list \<Rightarrow> SearchResult list" where
  "scoreMatches now its cq maxResults searchResults =
     concat (map (\<lambda>(i, itemId).
                    case map_of its itemId of
                      None \<Rightarrow> []
                    | Some x \<Rightarrow> [\<lparr>item = x, score = calculateRelevanceScore now cq x,
                                  relevance = positionRelevance maxResults i\<rparr>])
               (enumerate 0 (take (min (length searchResults) maxResults) searchResults)))"

definition keywordSearch ::
  "'ix FlexSearch \<Rightarrow> int \<Rightarrow> 'ix world \<Rightarrow> jsstring \<Rightarrow> nat \<Rightarrow> exn + SearchResult list" where
  "keywordSearch L now w query maxResults =
     (case rawMatches L w query maxResults of
        Inl e \<Rightarrow> Inl e
      | Inr searchResults \<Rightarrow>
          Inr (sort_key (\<lambda>r. - (score r + relevance r))
                 (scoreMatches now (items w) (cleanQuery query) maxResults searchResults)))"

text \<open>The body of the \<open>try\<close> block of \<open>search\<close>, and \<open>search\<close> itself with its \<open>catch\<close>.\<close>

definition searchBody ::
  "'ix FlexSearch \<Rightarrow> int \<Rightarrow> 'ix world \<Rightarrow> jsstring \<Rightarrow> nat \<Rightarrow> exn + SearchResult list" where
  "searchBody L now w query maxResults =
     (if isListAllQuery query then Inr (listAllSearch (items w) query maxResults)
      else keywordSearch L now w query maxResults)"

definition search ::
  "'ix FlexSearch \<Rightarrow> int \<Rightarrow> 'ix world \<Rightarrow> jsstring \<Rightarrow> nat \<Rightarrow> (exn + SearchResult list) \<times> 'ix world" where
  "search L now w query maxResults =
     (let w1 = (if \<not> isInitialized w then initialize L w else w)
      in ((if trim query = [] then Inr []
           else if length (items w1) = 0 then Inr []
           else (case searchBody L now w1 query maxResults of
                   Inl e \<Rightarrow> Inr []
                 | Inr results \<Rightarrow> Inr results)),
          w1))"

section \<open>The context assembler (background/worker.ts)\<close>

text \<open>
  The filter of \<open>handleChatRequest\<close> switches on the type of the item; its \<open>default\<close> case
  is not reached by the three types an item can have.
\<close>

definition isEnabled :: "AppSettings \<Rightarrow> item_type \<Rightarrow> bool" where
  "isEnabled settings t =
     (case t of
        Bookmark \<Rightarrow> bookmarks (enabledSources settings)
      | History \<Rightarrow> history (enabledSources settings)
      | ReadingList \<Rightarrow> readingList (enabledSources settings))"

definition contextEntry :: "SearchResult \<Rightarrow> ContextEntry" where
  "contextEntry r =
     \<lparr>c_title = ii_title (item r),
      c_url = ii_url (item r),
      c_snippet = strOr (ii_snippet (item r)) (substring0 (ii_content (item r)) 200),
      c_type = ii_type (item r),
      c_timestamp = ii_timestamp (item r)\<rparr>"

definition assembleContext :: "AppSettings \<Rightarrow> SearchResult list \<Rightarrow> ContextEntry list" where
  "assembleContext settings searchResults =
     (let filteredResults = filter (\<lambda>r. isEnabled settings (ii_type (item r))) searchResults
      in map contextEntry (take (settings_maxResults settings) filteredResults))"

section \<open>A reference text index\<close>

text \<open>
  Modelled from the spec: the text index itself (FlexSearch) is an external library, so
  the concrete index used to run the examples follows the specification of the index
  store: \<open>add\<close> inserts or overwrites the content of an id, \<open>remove\<close> deletes it, and
  \<open>searchTerm(term, limit)\<close> returns up to \<open>limit\<close> ids whose tokenized content has a token
  with \<open>term\<close> as a prefix. Tokens are the lower-cased pieces between white space.
\<close>

definition tokenize :: "jsstring \<Rightarrow> jsstring list" where
  "tokenize content = filter (\<lambda>t. t \<noteq> []) (splitWs [] False (toLowerCase content))"

definition searchTerm :: "(jsstring \<times> jsstring) list \<Rightarrow> jsstring \<Rightarrow> nat \<Rightarrow> jsstring list" where
  "searchTerm ix t cap =
     take cap (map fst (filter (\<lambda>(i, c). list_ex (\<lambda>tok. startsWith tok t) (tokenize c)) ix))"

definition specIndex :: "(jsstring \<times> jsstring) list FlexSearch" where
  "specIndex =
     \<lparr>fs_new = [],
      fs_add = (\<lambda>ix i c. Inr (AList.update i c ix)),
      fs_remove = (\<lambda>ix i. Inr (AList.delete i ix)),
      fs_search = (\<lambda>ix t cap. Inr (searchTerm ix t cap)),
      fs_export = (\<lambda>ix. Exported (concat (map (\<lambda>(i, c). i @ [10] @ c @ [10]) ix)))\<rparr>"

text \<open>The same index with a \<open>search\<close> that throws.\<close>

definition throwingIndex :: "(jsstring \<times> jsstring) list FlexSearch" where
  "throwingIndex = specIndex\<lparr>fs_search := (\<lambda>ix t cap. Inl Thrown)\<rparr>"

section \<open>Example states and documents\<close>

text \<open>
  \<open>freshWorld\<close> is the state right after construction over empty storage; \<open>started its\<close> is
  the state after the lazy initialization has loaded the documents \<open>its\<close> from storage.
\<close>

definition freshWorld :: "'ix FlexSearch \<Rightarrow> 'ix world" where
  "freshWorld L =
     \<lparr>index = fs_new L, items = [], isInitialized = False, st_bookmarks = [], st_history = [],
      st_readingList = [], st_indexedItems = [], st_searchIndex = None\<rparr>"

definition started :: "'ix FlexSearch \<Rightarrow> IndexedItem list \<Rightarrow> 'ix world" where
  "started L its = initialize L ((freshWorld L)\<lparr>st_indexedItems := its\<rparr>)"

definition docAI :: IndexedItem where
  "docAI =
     \<lparr>ii_id = js ''bookmark_1'', ii_title = js ''AI'', ii_url = js ''https://ai.example'',
      ii_content = js ''AI https://ai.example'', ii_type = Bookmark, ii_timestamp = 1000,
      ii_snippet = Some (js ''AI https://ai.example'')\<rparr>"

definition docReact :: IndexedItem where
  "docReact =
     \<lparr>ii_id = js ''history_7'', ii_title = js ''React Tutorial'',
      ii_url = js ''https://react.example'',
      ii_content = js ''React Tutorial https://react.example'', ii_type = History,
      ii_timestamp = 2000, ii_snippet = None\<rparr>"

definition docNews :: IndexedItem where
  "docNews =
     \<lparr>ii_id = js ''reading_https://news.example'', ii_title = js ''News'',
      ii_url = js ''https://news.example'', ii_content = js ''News https://news.example'',
      ii_type = ReadingList, ii_timestamp = 3000, ii_snippet = Some []\<rparr>"

definition docBook :: IndexedItem where
  "docBook =
     \<lparr>ii_id = js ''bookmark_2'', ii_title = js ''Book'', ii_url = js ''https://b.example'',
      ii_content = js ''Book https://b.example'', ii_type = Bookmark, ii_timestamp = 1000,
      ii_snippet = Some (js ''Book https://b.example'')\<rparr>"

definition docGetBook :: IndexedItem where
  "docGetBook =
     \<lparr>ii_id = js ''bookmark_3'', ii_title = js ''Get the book'', ii_url = js ''https://g.example'',
      ii_content = js ''Get the book https://g.example'', ii_type = Bookmark, ii_timestamp = 1000,
      ii_snippet = Some (js ''Get the book https://g.example'')\<rparr>"

definition docBookVisit :: IndexedItem where
  "docBookVisit =
     \<lparr>ii_id = js ''history_9'', ii_title = js ''book'', ii_url = js ''https://v.example'',
      ii_content = js ''book https://v.example'', ii_type = History, ii_timestamp = 1000,
      ii_snippet = None\<rparr>"

definition docAlpha :: IndexedItem where
  "docAlpha =
     \<lparr>ii_id = js ''bookmark_5'', ii_title = js ''Alpha'', ii_url = js ''https://a.example'',
      ii_content = js ''Alpha https://a.example'', ii_type = Bookmark, ii_timestamp = 1000,
      ii_snippet = None\<rparr>"

definition docBeta :: IndexedItem where
  "docBeta =
     \<lparr>ii_id = js ''bookmark_6'', ii_title = js ''Beta'', ii_url = js ''https://b.example'',
      ii_content = js ''Beta https://b.example'', ii_type = Bookmark, ii_timestamp = 1000,
      ii_snippet = None\<rparr>"

definition docGamma :: IndexedItem where
  "docGamma =
     \<lparr>ii_id = js ''bookmark_7'', ii_title = js ''Gamma'', ii_url = js ''https://c.example'',
      ii_content = js ''Gamma https://c.example'', ii_type = Bookmark, ii_timestamp = 1000,
      ii_snippet = None\<rparr>"

text \<open>One document added once and another one twice, starting from a fresh indexer.\<close>

definition addedTwice :: "(jsstring \<times> jsstring) list world" where
  "addedTwice =
     snd (addItem specIndex
            (snd (addItem specIndex (snd (addItem specIndex (freshWorld specIndex) docBook)) docAI))
            docAI)"


text \<open>The query \<open>my bookmarks\<close> with the Kelvin sign U+212A in place of the letter k.\<close>

definition kelvinQuery :: jsstring where
  "kelvinQuery = js ''my boo'' @ [8490] @ js ''marks''"

definition historyOff :: AppSettings where
  "historyOff =
     \<lparr>enabledSources = \<lparr>bookmarks = True, history = False, readingList = True\<rparr>,
      settings_maxResults = 1\<rparr>"

definition ranked :: "SearchResult list" where
  "ranked =
     [\<lparr>item = docReact, score = 7, relevance = 1\<rparr>,
      \<lparr>item = docNews, score = 2, relevance = 19 / 20\<rparr>,
      \<lparr>item = docAI, score = 1, relevance = 9 / 10\<rparr>]"

definition visitUntitled :: HistoryItem where
  "visitUntitled =
     \<lparr>h_id = js ''7'', h_url = Some (js ''https://react.example''), h_title = Some [],
      h_lastVisitTime = Some 2000\<rparr>"

definition visitReact :: HistoryItem where
  "visitReact =
     \<lparr>h_id = js ''8'', h_url = Some (js ''https://react.example''),
      h_title = Some (js ''React''), h_lastVisitTime = Some 2000\<rparr>"

definition visitNoUrl :: HistoryItem where
  "visitNoUrl =
     \<lparr>h_id = js ''9'', h_url = None, h_title = Some (js ''React''), h_lastVisitTime = None\<rparr>"

section \<open>Auxiliary notions\<close>

text \<open>
  A string with its letters A to Z replaced by a to z, and a pattern whose literals are
  left as they are by that.
\<close>

definition asciiLowerChar :: "nat \<Rightarrow> nat" where
  "asciiLowerChar c = (if 65 \<le> c \<and> c \<le> 90 then c + 32 else c)"

definition asciiLowerCase :: "jsstring \<Rightarrow> jsstring" where
  "asciiLowerCase s = map asciiLowerChar s"

definition lowerAtom :: "re_atom \<Rightarrow> bool" where
  "lowerAtom a =
     (case a of
        Lit l \<Rightarrow> list_all (\<lambda>c. asciiLowerChar c = c) l
      | OptLit l \<Rightarrow> list_all (\<lambda>c. asciiLowerChar c = c) l
      | _ \<Rightarrow> True)"

definition lowerRegex :: "regex \<Rightarrow> bool" where
  "lowerRegex r = list_all (list_all lowerAtom) r"

text \<open>
  The source-type keywords (bookmark with an optional plural, history, reading list, and
  their Chinese equivalents), and a query that, the case of its ASCII letters ignored,
  contains a listing phrase or a source-type keyword.
\<close>

definition sourceTypeKeywords :: "regex list" where
  "sourceTypeKeywords =
     [[[Lit (js ''bookmark''), OptLit (js ''s'')], [Lit [20070, 31614]]],
      [[Lit (js ''history'')], [Lit [21382, 21490]], [Lit [27983, 35272, 35760, 24405]]],
      [[Lit (js ''reading''), AnyOpt, Lit (js ''list'')],
       [Lit [38405, 35835, 28165, 21333]], [Lit [38405, 35835, 21015, 34920]]]]"

definition enumerationMatch :: "jsstring \<Rightarrow> bool" where
  "enumerationMatch query =
     list_ex (\<lambda>phrase. regexTest False phrase (asciiLowerCase query))
       (enumerateVocabulary # sourceTypeKeywords)"

text \<open>An optional string that is present and not empty.\<close>

definition nonEmpty :: "jsstring option \<Rightarrow> bool" where
  "nonEmpty x \<longleftrightarrow> x \<noteq> None \<and> x \<noteq> Some []"

text \<open>
  Every entry of the document map is stored under the id of its document, and the states
  reachable from a freshly constructed indexer by the operations of the class (a rebuild
  also at its suspensions), whatever else is written to storage in between.
\<close>

definition keyedById :: "(jsstring \<times> IndexedItem) list \<Rightarrow> bool" where
  "keyedById its \<longleftrightarrow> list_all (\<lambda>(k, x). ii_id x = k) its"

inductive reachable :: "'ix FlexSearch \<Rightarrow> 'ix world \<Rightarrow> bool" for L :: "'ix FlexSearch" where
  constructed: "items w = [] \<Longrightarrow> \<not> isInitialized w \<Longrightarrow> index w = fs_new L \<Longrightarrow> reachable L w"
| initialized: "reachable L w \<Longrightarrow> reachable L (initialize L w)"
| searched: "reachable L w \<Longrightarrow> reachable L (snd (search L now w query n))"
| added: "reachable L w \<Longrightarrow> reachable L (snd (addItem L w it))"
| removed: "reachable L w \<Longrightarrow> reachable L (snd (removeItem L w itemId))"
| updated: "reachable L w \<Longrightarrow> reachable L (snd (updateItem L w it))"
| rebuilding: "reachable L w \<Longrightarrow> w' \<in> set (rebuildSuspensions L now w) \<Longrightarrow> reachable L w'"
| rebuilt: "reachable L w \<Longrightarrow> reachable L (snd (rebuildIndex L now w))"
| cleared: "reachable L w \<Longrightarrow> reachable L (snd (clearIndex L w))"
| stored: "reachable L w \<Longrightarrow>
            reachable L (w\<lparr>st_bookmarks := bs, st_history := hs, st_readingList := rs,
                           st_indexedItems := its, st_searchIndex := sx\<rparr>)"

section \<open>Evaluation rules\<close>

lemmas str_defs =
  js_def toLowerCase_def toLowerUnit_def isWhiteSpace_def isLineTerminator_def isWordChar_def
  isAsciiLetter_def isCJK_def trim_def startsWith_def substring0_def canonicalize_def
  litMatch_def reListing_def reBookmarks_def reBookmark_def reHistory_def reReadingList_def
  listAllPatterns_def isListAllQuery_def wantBookmarks_def wantHistory_def
  wantReadingList_def stopWords_def isWordAt_def wordBoundary_def charAt_def
  matchStopWord_def cleanQuery_def extractTerms_def

lemmas state_defs =
  freshWorld_def started_def initialize_def addToIndex_def specIndex_def throwingIndex_def
  persistIndex_def searchTerm_def tokenize_def

lemmas search_defs =
  search_def searchBody_def keywordSearch_def rawMatches_def scoreMatches_def
  listAllSearch_def includeTypes_def positionRelevance_def calculateRelevanceScore_def

section \<open>Intent classification\<close>

lemma canonicalize_eq_iff:
  "canonicalize a = canonicalize b \<longleftrightarrow> asciiLowerChar a = asciiLowerChar b"
  by (auto simp: canonicalize_def asciiLowerChar_def)

lemma map_eq_transfer:
  assumes "\<And>a b. f a = f b \<longleftrightarrow> g a = g b"
  shows "map f xs = map f ys \<longleftrightarrow> map g xs = map g ys"
proof (induction xs arbitrary: ys)
  case Nil
  then show ?case by simp
next
  case (Cons x xs)
  then show ?case using assms by (cases ys) auto
qed

lemma map_lower_fixed: "list_all (\<lambda>c. asciiLowerChar c = c) l \<Longrightarrow> map asciiLowerChar l = l"
  by (induction l) auto

lemma litMatch_lower:
  assumes "list_all (\<lambda>c. asciiLowerChar c = c) l"
  shows "litMatch True l s = litMatch False l (asciiLowerCase s)"
proof -
  have "map canonicalize (take (length l) s) = map canonicalize l
        \<longleftrightarrow> map asciiLowerChar (take (length l) s) = map asciiLowerChar l"
    by (rule map_eq_transfer) (rule canonicalize_eq_iff)
  then show ?thesis
    using map_lower_fixed [OF assms] by (simp add: litMatch_def asciiLowerCase_def take_map)
qed

lemma isLineTerminator_lower: "isLineTerminator (asciiLowerChar c) = isLineTerminator c"
  by (auto simp: isLineTerminator_def asciiLowerChar_def)

lemma matchHere_lower:
  "list_all lowerAtom as \<Longrightarrow> matchHere True as s = matchHere False as (asciiLowerCase s)"
proof (induction as arbitrary: s)
  case Nil
  then show ?case by simp
next
  case (Cons a as)
  then have IH: "\<And>t. matchHere True as t = matchHere False as (asciiLowerCase t)" by simp
  show ?case
  proof (cases a)
    case (Lit l)
    with Cons.prems have "list_all (\<lambda>c. asciiLowerChar c = c) l" by (simp add: lowerAtom_def)
    then show ?thesis using Lit IH [of "drop (length l) s"]
      by (simp add: litMatch_lower) (simp add: asciiLowerCase_def drop_map)
  next
    case (OptLit l)
    with Cons.prems have "list_all (\<lambda>c. asciiLowerChar c = c) l" by (simp add: lowerAtom_def)
    then show ?thesis using OptLit IH [of "drop (length l) s"] IH [of s]
      by (simp add: litMatch_lower) (simp add: asciiLowerCase_def drop_map)
  next
    case AnyOpt
    then show ?thesis using IH
      by (cases s) (simp_all add: asciiLowerCase_def isLineTerminator_lower)
  next
    case AnyStar
    have "matchHere True (AnyStar # as) s = matchHere False (AnyStar # as) (asciiLowerCase s)"
    proof (induction s)
      case Nil
      then show ?case using IH [of "[]"] by (simp add: asciiLowerCase_def)
    next
      case (Cons c cs)
      then show ?case using IH [of "c # cs"]
        by (simp add: asciiLowerCase_def isLineTerminator_lower)
    qed
    then show ?thesis using AnyStar by simp
  qed
qed

lemma regexTest_lower:
  "lowerRegex r \<Longrightarrow> regexTest True r s = regexTest False r (asciiLowerCase s)"
proof (induction s)
  case Nil
  then show ?case
    by (auto simp: lowerRegex_def asciiLowerCase_def list_ex_iff list_all_iff
             dest: matchHere_lower [where s = "[]", unfolded asciiLowerCase_def, simplified])
next
  case (Cons c cs)
  have "\<And>alt. alt \<in> set r \<Longrightarrow>
          matchHere True alt (c # cs) = matchHere False alt (asciiLowerCase (c # cs))"
    using Cons.prems by (simp add: lowerRegex_def list_all_iff matchHere_lower)
  then show ?case using Cons by (auto simp: list_ex_iff asciiLowerCase_def)
qed

lemma lowerRegex_patterns:
  "lowerRegex reListing" "lowerRegex reBookmarks" "lowerRegex reHistory"
  "lowerRegex reReadingList"
  by (simp_all add: lowerRegex_def lowerAtom_def reListing_def reBookmarks_def reHistory_def
        reReadingList_def js_def asciiLowerChar_def)

lemma vocabulary_patterns:
  "enumerateVocabulary # sourceTypeKeywords = listAllPatterns"
  by (simp add: enumerateVocabulary_def sourceTypeKeywords_def listAllPatterns_def
        reListing_def reBookmarks_def reHistory_def reReadingList_def)

lemma search_dispatch:
  assumes "trim query \<noteq> []" and "items (snd (search L now w query n)) \<noteq> []"
  shows "fst (search L now w query n) =
           (case searchBody L now (snd (search L now w query n)) query n of
              Inl e \<Rightarrow> Inr [] | Inr results \<Rightarrow> Inr results)"
  using assms by (simp add: search_def Let_def split: sum.splits)

lemma isListAllQuery_iff: "isListAllQuery query \<longleftrightarrow> enumerationMatch query"
  unfolding enumerationMatch_def vocabulary_patterns
  by (simp add: isListAllQuery_def listAllPatterns_def regexTest_lower lowerRegex_patterns)

lemmas lower_table = lowerRanges_def lowerPairs_def

lemma ex_rome_listAll: "isListAllQuery (js ''history of rome'')"
  by (simp add: str_defs)

lemma ex_rome_no_phrase: "\<not> enumerationIntent (js ''history of rome'')"
  by (simp add: enumerationIntent_def enumerateVocabulary_def str_defs)

lemma ex_rome_nonblank: "trim (js ''history of rome'') \<noteq> []"
  by (simp add: str_defs)

lemma ex_rome_types: "includeTypes (js ''history of rome'') = [History]"
  by (simp add: includeTypes_def str_defs)

lemma ex_kelvin_lower: "toLowerCase kelvinQuery = js ''my bookmarks''"
  by (simp add: kelvinQuery_def toLowerCase_def toLowerUnit_def lower_table js_def)

lemma ex_kelvin_keyword: "\<not> isListAllQuery kelvinQuery"
  by (simp add: kelvinQuery_def str_defs)

lemma ex_bookmarks_plain:
  "list_ex (\<lambda>phrase. regexTest False phrase (js ''my bookmarks''))
     (enumerateVocabulary # sourceTypeKeywords)"
  by (simp add: enumerateVocabulary_def sourceTypeKeywords_def str_defs)

lemma started_ai_react:
  "started specIndex [docAI, docReact] =
     \<lparr>index = [(js ''bookmark_1'', js ''AI https://ai.example''),
               (js ''history_7'', js ''React Tutorial https://react.example'')],
      items = [(js ''bookmark_1'', docAI), (js ''history_7'', docReact)],
      isInitialized = True, st_bookmarks = [], st_history = [], st_readingList = [],
      st_indexedItems = [docAI, docReact], st_searchIndex = None\<rparr>"
  by (simp add: state_defs docAI_def docReact_def js_def)

lemma ex_rome_search:
  "fst (search specIndex 5000 (started specIndex [docAI, docReact]) (js ''history of rome'') 20) =
     Inr [\<lparr>item = docReact, score = 10, relevance = 1\<rparr>]"
  unfolding started_ai_react
  by (simp add: search_def searchBody_def ex_rome_listAll ex_rome_nonblank Let_def
        listAllSearch_def ex_rome_types positionRelevance_def)
     (simp add: docAI_def docReact_def)

text \<open>
  C3, as stated, fails. The query \<open>history of rome\<close> contains no listing phrase, yet it is
  classified as a list-all query and answered by the listing of the history documents: a
  bare source-type keyword is enough. And the lower-cased form is not what is matched:
  \<open>my bookmarks\<close> written with the Kelvin sign lower-cases to \<open>my bookmarks\<close>, which
  contains a keyword, while the query itself is not classified as a list-all query.
\<close>

theorem intent_vocabulary_counterexample:
  "trim (js ''history of rome'') \<noteq> [] \<and>
   \<not> enumerationIntent (js ''history of rome'') \<and>
   isListAllQuery (js ''history of rome'') \<and>
   fst (search specIndex 5000 (started specIndex [docAI, docReact]) (js ''history of rome'') 20) =
     Inr [\<lparr>item = docReact, score = 10, relevance = 1\<rparr>] \<and>
   toLowerCase kelvinQuery = js ''my bookmarks'' \<and>
   list_ex (\<lambda>phrase. regexTest False phrase (toLowerCase kelvinQuery))
     (enumerateVocabulary # sourceTypeKeywords) \<and>
   \<not> isListAllQuery kelvinQuery"
  using ex_rome_nonblank ex_rome_no_phrase ex_rome_listAll ex_rome_search ex_kelvin_lower
    ex_kelvin_keyword ex_bookmarks_plain
  by simp

lemma ex_show_bookmarks: "enumerationMatch (js ''Show my BOOKMARKS'')"
  by (simp add: enumerationMatch_def enumerateVocabulary_def sourceTypeKeywords_def
        asciiLowerCase_def asciiLowerChar_def str_defs)

lemma ex_react_keyword: "\<not> enumerationMatch (js ''React hooks'')"
  by (simp add: enumerationMatch_def enumerateVocabulary_def sourceTypeKeywords_def
        asciiLowerCase_def asciiLowerChar_def str_defs)

text \<open>
  C3, amended. A query is handled as a list-all query exactly when, the case of its
  ASCII letters ignored, it contains one of the listing phrases or one of the source-type
  keywords (English or Chinese); the body of \<open>search\<close> runs the list-all branch on such a
  query and the keyword branch on every other one, and so does \<open>search\<close> on every query
  that is not blank, over a document map that is not empty.
\<close>

theorem intent_classification:
  "(isListAllQuery query \<longleftrightarrow> enumerationMatch query) \<and>
   searchBody L now w query n =
     (if enumerationMatch query then Inr (listAllSearch (items w) query n)
      else keywordSearch L now w query n) \<and>
   (trim query \<noteq> [] \<and> items (snd (search L now w query n)) \<noteq> [] \<longrightarrow>
      fst (search L now w query n) =
        (if enumerationMatch query
         then Inr (listAllSearch (items (snd (search L now w query n))) query n)
         else (case keywordSearch L now (snd (search L now w query n)) query n of
                 Inl e \<Rightarrow> Inr [] | Inr results \<Rightarrow> Inr results)))"
proof -
  have c: "isListAllQuery query \<longleftrightarrow> enumerationMatch query"
    by (rule isListAllQuery_iff)
  have b: "\<And>v. searchBody L now v query n =
     (if enumerationMatch query then Inr (listAllSearch (items v) query n)
      else keywordSearch L now v query n)"
    by (simp add: searchBody_def c)
  show ?thesis
    using c b [of w] search_dispatch [of query L now w n]
    by (simp add: b)
qed

text \<open>
  C3, amended, at two queries: an upper-case listing phrase is an enumeration, and a
  query without any phrase or keyword runs the keyword branch.
\<close>

theorem intent_classification_witness:
  "isListAllQuery (js ''Show my BOOKMARKS'') \<and>
   fst (search specIndex 0 (started specIndex [docAI]) (js ''Show my BOOKMARKS'') 20) =
     Inr (listAllSearch (items (started specIndex [docAI])) (js ''Show my BOOKMARKS'') 20) \<and>
   \<not> isListAllQuery (js ''React hooks'') \<and>
   searchBody specIndex 0 (started specIndex [docAI]) (js ''React hooks'') 20 =
     keywordSearch specIndex 0 (started specIndex [docAI]) (js ''React hooks'') 20"
proof -
  have s: "snd (search specIndex 0 (started specIndex [docAI]) (js ''Show my BOOKMARKS'') 20) =
             started specIndex [docAI]"
    by (simp add: search_def Let_def started_def initialize_def freshWorld_def)
  have i: "items (started specIndex [docAI]) \<noteq> []"
    by (simp add: started_def initialize_def freshWorld_def addToIndex_def Let_def)
  have t: "trim (js ''Show my BOOKMARKS'') \<noteq> []"
    by (simp add: str_defs)
  show ?thesis
    using intent_classification
            [of "js ''Show my BOOKMARKS''" specIndex 0 "started specIndex [docAI]" 20]
          intent_classification
            [of "js ''React hooks''" specIndex 0 "started specIndex [docAI]" 20]
          ex_show_bookmarks ex_react_keyword s i t
    by simp
qed

section \<open>The error contract of search\<close>

lemma started_docAI:
  "started throwingIndex [docAI] =
     \<lparr>index = [(js ''bookmark_1'', js ''AI https://ai.example'')],
      items = [(js ''bookmark_1'', docAI)], isInitialized = True, st_bookmarks = [],
      st_history = [], st_readingList = [], st_indexedItems = [docAI],
      st_searchIndex = None\<rparr>"
  by (simp add: state_defs docAI_def)

lemma ex_blank: "trim (js ''   '') = []"
  by (simp add: str_defs)

lemma ex_react_body:
  "searchBody throwingIndex 0 (started throwingIndex [docAI]) (js ''react'') 20 = Inl Thrown"
  unfolding started_docAI
  by (simp add: search_defs str_defs throwingIndex_def specIndex_def)

text \<open>
  C1. \<open>search\<close> never throws: it always returns a list. The list is empty when the query
  is empty or only white space, when the document map is empty, and when the body of its
  \<open>try\<close> block throws (an index search that throws, for one). On an initialized indexer
  it leaves the state untouched.
\<close>

theorem search_never_throws:
  "(\<exists>results. fst (search L now w query n) = Inr results) \<and>
   (trim query = [] \<longrightarrow> fst (search L now w query n) = Inr []) \<and>
   (items (snd (search L now w query n)) = [] \<longrightarrow> fst (search L now w query n) = Inr []) \<and>
   ((\<exists>e. searchBody L now (snd (search L now w query n)) query n = Inl e) \<longrightarrow>
      fst (search L now w query n) = Inr []) \<and>
   (isInitialized w \<longrightarrow> snd (search L now w query n) = w)"
  by (auto simp: search_def Let_def split: sum.splits)

text \<open>
  C1, at a white-space query, at an empty document map, and at an index whose \<open>search\<close>
  throws.
\<close>

theorem search_never_throws_witness:
  "fst (search specIndex 0 (started specIndex [docAI]) (js ''   '') 20) = Inr [] \<and>
   fst (search specIndex 0 (freshWorld specIndex) (js ''react'') 20) = Inr [] \<and>
   searchBody throwingIndex 0 (started throwingIndex [docAI]) (js ''react'') 20 = Inl Thrown \<and>
   fst (search throwingIndex 0 (started throwingIndex [docAI]) (js ''react'') 20) = Inr [] \<and>
   snd (search throwingIndex 0 (started throwingIndex [docAI]) (js ''react'') 20) =
     started throwingIndex [docAI]"
proof -
  have i: "isInitialized (started throwingIndex [docAI])"
    by (simp add: started_docAI)
  have e: "items (snd (search specIndex 0 (freshWorld specIndex) (js ''react'') 20)) = []"
    by (simp add: search_def freshWorld_def initialize_def Let_def)
  have t: "snd (search throwingIndex 0 (started throwingIndex [docAI]) (js ''react'') 20)
             = started throwingIndex [docAI]"
    using search_never_throws
            [of throwingIndex 0 "started throwingIndex [docAI]" "js ''react''" 20] i
    by simp
  show ?thesis
    using search_never_throws [of specIndex 0 "started specIndex [docAI]" "js ''   ''" 20]
      search_never_throws [of specIndex 0 "freshWorld specIndex" "js ''react''" 20]
      search_never_throws
        [of throwingIndex 0 "started throwingIndex [docAI]" "js ''react''" 20]
      ex_blank e t ex_react_body
    by simp
qed

section \<open>The history normalizer\<close>

lemma truthy_nonEmpty: "truthy x = nonEmpty x"
  by (cases x) (simp_all add: truthy_def nonEmpty_def)

text \<open>
  C8, as stated, fails: a history record whose title is present but is the empty string
  has both fields present and yields no document.
\<close>

theorem history_empty_title_counterexample:
  "h_url visitUntitled \<noteq> None \<and> h_title visitUntitled \<noteq> None \<and>
   convertHistoryToIndexedItems 5000 [visitUntitled] = []"
  by (simp add: convertHistoryToIndexedItems_def visitUntitled_def truthy_def js_def)

text \<open>
  C8, amended. The normalizer emits, in order, exactly one document for each history
  record whose url and title are both present and not empty, carrying that record's id
  (prefixed), title and url, and no document for any other record.
\<close>

theorem convertHistory_keeps_nonempty:
  "map (\<lambda>d. (ii_id d, Some (ii_title d), Some (ii_url d), ii_type d))
       (convertHistoryToIndexedItems now hs) =
   map (\<lambda>h. (js ''history_'' @ h_id h, h_title h, h_url h, History))
       (filter (\<lambda>h. nonEmpty (h_url h) \<and> nonEmpty (h_title h)) hs)"
  by (induction hs)
     (auto simp: convertHistoryToIndexedItems_def historyToIndexedItem_def Let_def
        truthy_nonEmpty nonEmpty_def strOr_def split: option.splits)

text \<open>
  C8, amended, at three records: one with an empty title, one complete, one without a url.
\<close>

theorem convertHistory_keeps_nonempty_witness:
  "map ii_id (convertHistoryToIndexedItems 5000 [visitUntitled, visitReact, visitNoUrl]) =
     [js ''history_8'']"
proof -
  have "map fst (map (\<lambda>d. (ii_id d, Some (ii_title d), Some (ii_url d), ii_type d))
       (convertHistoryToIndexedItems 5000 [visitUntitled, visitReact, visitNoUrl])) =
     [js ''history_8'']"
    unfolding convertHistory_keeps_nonempty [of 5000 "[visitUntitled, visitReact, visitNoUrl]"]
    by (simp add: nonEmpty_def visitUntitled_def visitReact_def visitNoUrl_def js_def)
  then show ?thesis by (simp add: comp_def)
qed

section \<open>The context assembler\<close>

lemma isEnabled_iff:
  "isEnabled settings t \<longleftrightarrow>
     (t = Bookmark \<and> bookmarks (enabledSources settings)) \<or>
     (t = History \<and> history (enabledSources settings)) \<or>
     (t = ReadingList \<and> readingList (enabledSources settings))"
  by (cases t) (simp_all add: isEnabled_def)

lemma contextEntry_fields:
  "contextEntry r =
      \<lparr>c_title = ii_title (item r), c_url = ii_url (item r),
       c_snippet = (case ii_snippet (item r) of
                      None \<Rightarrow> take 200 (ii_content (item r))
                    | Some s \<Rightarrow> if s = [] then take 200 (ii_content (item r)) else s),
       c_type = ii_type (item r), c_timestamp = ii_timestamp (item r)\<rparr>"
  by (simp add: contextEntry_def strOr_def substring0_def)

text \<open>
  C9. The assembled context has no entry of a source type whose flag in the
  configuration is off: a bookmark entry needs \<open>bookmarks\<close>, a history entry \<open>history\<close>
  and a reading-list entry \<open>readingList\<close>. It holds the first \<open>maxResults\<close> (of the
  settings) results of an enabled type, in their order, and each entry is the projection
  of its result's item to title, url, snippet (the first 200 characters of the content
  when the snippet is absent or empty), type and time stamp.
\<close>

theorem assembleContext_filter_project_truncate:
  "(\<forall>e \<in> set (assembleContext settings results).
      (c_type e = Bookmark \<longrightarrow> bookmarks (enabledSources settings)) \<and>
      (c_type e = History \<longrightarrow> history (enabledSources settings)) \<and>
      (c_type e = ReadingList \<longrightarrow> readingList (enabledSources settings))) \<and>
   assembleContext settings results =
     map contextEntry
       (take (settings_maxResults settings)
          (filter (\<lambda>r. (ii_type (item r) = Bookmark \<and> bookmarks (enabledSources settings)) \<or>
                        (ii_type (item r) = History \<and> history (enabledSources settings)) \<or>
                        (ii_type (item r) = ReadingList \<and>
                           readingList (enabledSources settings)))
             results)) \<and>
   length (assembleContext settings results) \<le> settings_maxResults settings \<and>
   (\<forall>e \<in> set (assembleContext settings results). isEnabled settings (c_type e)) \<and>
   length (assembleContext settings results) =
     min (settings_maxResults settings)
         (length (filter (\<lambda>r. isEnabled settings (ii_type (item r))) results)) \<and>
   (\<forall>i < length (assembleContext settings results).
      assembleContext settings results ! i =
        contextEntry (filter (\<lambda>r. isEnabled settings (ii_type (item r))) results ! i)) \<and>
   (\<forall>r. contextEntry r =
      \<lparr>c_title = ii_title (item r), c_url = ii_url (item r),
       c_snippet = (case ii_snippet (item r) of
                      None \<Rightarrow> take 200 (ii_content (item r))
                    | Some s \<Rightarrow> if s = [] then take 200 (ii_content (item r)) else s),
       c_type = ii_type (item r), c_timestamp = ii_timestamp (item r)\<rparr>)"
proof -
  let ?f = "filter (\<lambda>r. isEnabled settings (ii_type (item r))) results"
  have a: "assembleContext settings results =
             map contextEntry (take (settings_maxResults settings) ?f)"
    by (simp add: assembleContext_def)
  have en: "\<forall>e \<in> set (assembleContext settings results). isEnabled settings (c_type e)"
  proof
    fix e assume "e \<in> set (assembleContext settings results)"
    then obtain r where "r \<in> set (take (settings_maxResults settings) ?f)" "e = contextEntry r"
      unfolding a by auto
    moreover from this have "r \<in> set ?f" by (meson in_set_takeD)
    ultimately show "isEnabled settings (c_type e)" by (simp add: contextEntry_def)
  qed
  have flags: "\<forall>e \<in> set (assembleContext settings results).
      (c_type e = Bookmark \<longrightarrow> bookmarks (enabledSources settings)) \<and>
      (c_type e = History \<longrightarrow> history (enabledSources settings)) \<and>
      (c_type e = ReadingList \<longrightarrow> readingList (enabledSources settings))"
    using en by (auto simp: isEnabled_iff)
  have explicit: "assembleContext settings results =
     map contextEntry
       (take (settings_maxResults settings)
          (filter (\<lambda>r. (ii_type (item r) = Bookmark \<and> bookmarks (enabledSources settings)) \<or>
                        (ii_type (item r) = History \<and> history (enabledSources settings)) \<or>
                        (ii_type (item r) = ReadingList \<and>
                           readingList (enabledSources settings)))
             results))"
    unfolding a by (simp add: isEnabled_iff)
  have len: "length (assembleContext settings results) =
                   min (settings_maxResults settings) (length ?f)"
    unfolding a by (simp add: min.commute)
  then have le: "length (assembleContext settings results) \<le> settings_maxResults settings"
    by simp
  have nth: "\<forall>i < length (assembleContext settings results).
      assembleContext settings results ! i = contextEntry (?f ! i)"
    unfolding a by simp
  show ?thesis
    using flags explicit le en len nth contextEntry_fields by blast
qed

text \<open>
  C9, with history disabled and a budget of one: of a history, a reading-list and a
  bookmark result only the reading-list one is kept, its empty snippet replaced by the
  content.
\<close>

theorem assembleContext_witness:
  "assembleContext historyOff ranked =
     [\<lparr>c_title = js ''News'', c_url = js ''https://news.example'',
       c_snippet = js ''News https://news.example'', c_type = ReadingList,
       c_timestamp = 3000\<rparr>] \<and>
   \<not> history (enabledSources historyOff) \<and> readingList (enabledSources historyOff)"
proof -
  have f: "filter (\<lambda>r. isEnabled historyOff (ii_type (item r))) ranked = tl ranked"
    by (simp add: ranked_def isEnabled_def historyOff_def docReact_def docNews_def docAI_def)
  note T = assembleContext_filter_project_truncate [of historyOff ranked]
  note len = T [THEN conjunct2, THEN conjunct2, THEN conjunct2, THEN conjunct2, THEN conjunct1]
  note nth = T [THEN conjunct2, THEN conjunct2, THEN conjunct2, THEN conjunct2, THEN conjunct2,
                THEN conjunct1]
  have l: "length (assembleContext historyOff ranked) = 1"
    using len unfolding f by (simp add: historyOff_def ranked_def)
  then have "assembleContext historyOff ranked ! 0 = contextEntry (tl ranked ! 0)"
    using nth unfolding f by simp
  moreover have "contextEntry (tl ranked ! 0) =
     \<lparr>c_title = js ''News'', c_url = js ''https://news.example'',
       c_snippet = js ''News https://news.example'', c_type = ReadingList,
       c_timestamp = 3000\<rparr>"
    by (simp add: ranked_def contextEntry_def docNews_def strOr_def substring0_def js_def)
  ultimately have "assembleContext historyOff ranked =
     [\<lparr>c_title = js ''News'', c_url = js ''https://news.example'',
       c_snippet = js ''News https://news.example'', c_type = ReadingList,
       c_timestamp = 3000\<rparr>]"
    using l by (cases "assembleContext historyOff ranked") simp_all
  then show ?thesis by (simp add: historyOff_def)
qed

section \<open>Index statistics\<close>

text \<open>
  C10. Before initialization \<open>getStats\<close> returns zero for both statistics and reads
  nothing from storage; once initialized, \<open>totalItems\<close> is the size of the document map.
\<close>

theorem getStats_before_and_after_initialization:
  "(\<not> isInitialized w \<longrightarrow> getStats w = (\<lparr>totalItems = 0, indexSize = 0\<rparr>, [])) \<and>
   (isInitialized w \<longrightarrow> totalItems (fst (getStats w)) = length (items w))"
  by (simp add: getStats_def Let_def)

text \<open>
  C10, at an uninitialized indexer over storage that holds a document and a serialized
  index, and at an indexer initialized with two documents.
\<close>

theorem getStats_witness:
  "getStats ((freshWorld specIndex)
               \<lparr>st_indexedItems := [docAI], st_searchIndex := Some (js ''blob'')\<rparr>)
     = (\<lparr>totalItems = 0, indexSize = 0\<rparr>, []) \<and>
   totalItems (fst (getStats (started specIndex [docAI, docReact]))) = 2"
proof -
  have "\<not> isInitialized ((freshWorld specIndex)
               \<lparr>st_indexedItems := [docAI], st_searchIndex := Some (js ''blob'')\<rparr>)"
    by (simp add: freshWorld_def)
  moreover have "isInitialized (started specIndex [docAI, docReact])"
    by (simp add: started_def initialize_def freshWorld_def)
  moreover have "length (items (started specIndex [docAI, docReact])) = 2"
    by (simp add: started_def initialize_def freshWorld_def addToIndex_def docAI_def
          docReact_def js_def Let_def)
  ultimately show ?thesis
    using getStats_before_and_after_initialization
            [of "(freshWorld specIndex)
                   \<lparr>st_indexedItems := [docAI], st_searchIndex := Some (js ''blob'')\<rparr>"]
          getStats_before_and_after_initialization [of "started specIndex [docAI, docReact]"]
    by simp
qed

section \<open>The list-all branch\<close>

lemma listAll_items:
  "map item (listAllSearch its query n) =
     take n (sort_key (\<lambda>x. - ii_timestamp x)
               (filter (\<lambda>x. ii_type x \<in> set (includeTypes query)) (map snd its)))"
  by (simp add: listAllSearch_def Let_def comp_def case_prod_beta map_snd_enumerate [unfolded comp_def])

lemma listAll_length: "length (listAllSearch its query n) \<le> n"
  by (simp add: listAllSearch_def Let_def)

lemma listAll_nth:
  assumes "i < length (listAllSearch its query n)"
  shows "score (listAllSearch its query n ! i) = 10 \<and>
         relevance (listAllSearch its query n ! i) = positionRelevance n i"
  using assms by (simp add: listAllSearch_def Let_def nth_enumerate_eq)

lemma listAll_types:
  assumes "r \<in> set (listAllSearch its query n)"
  shows "ii_type (item r) \<in> set (includeTypes query) \<and> item r \<in> snd ` set its"
proof -
  from assms have "item r \<in> set (map item (listAllSearch its query n))" by simp
  then have "item r \<in> set (sort_key (\<lambda>x. - ii_timestamp x)
               (filter (\<lambda>x. ii_type x \<in> set (includeTypes query)) (map snd its)))"
    unfolding listAll_items by (rule in_set_takeD)
  then show ?thesis by auto
qed

lemma listAll_sorted:
  "sorted_wrt (\<lambda>a b. ii_timestamp (item b) \<le> ii_timestamp (item a)) (listAllSearch its query n)"
proof -
  let ?xs = "sort_key (\<lambda>x. - ii_timestamp x)
               (filter (\<lambda>x. ii_type x \<in> set (includeTypes query)) (map snd its))"
  have "sorted (map (\<lambda>x. - ii_timestamp x) ?xs)" by (rule sorted_sort_key)
  then have "sorted_wrt (\<lambda>a b. ii_timestamp b \<le> ii_timestamp a) ?xs"
    by (simp add: sorted_map)
  then have "sorted_wrt (\<lambda>a b. ii_timestamp b \<le> ii_timestamp a) (take n ?xs)"
    by (rule sorted_wrt_take)
  then have "sorted_wrt (\<lambda>a b. ii_timestamp b \<le> ii_timestamp a) (map item (listAllSearch its query n))"
    by (simp only: listAll_items)
  then show ?thesis by (simp add: sorted_wrt_map)
qed

lemma positionRelevance_decreasing:
  assumes "i < j" "j < n"
  shows "positionRelevance n j < positionRelevance n i"
proof -
  have "(of_nat n - of_nat j :: rat) < of_nat n - of_nat i" using assms by simp
  moreover have "(0 :: rat) < of_nat n" using assms by simp
  ultimately show ?thesis unfolding positionRelevance_def by (rule divide_strict_right_mono)
qed

lemma listAll_relevance_sorted:
  "sorted_wrt (\<lambda>a b. relevance b < relevance a) (listAllSearch its query n)"
  unfolding sorted_wrt_iff_nth_less
proof (intro allI impI)
  fix i j assume ij: "i < j" "j < length (listAllSearch its query n)"
  then have "j < n" using listAll_length [of its query n] by simp
  with ij show "relevance (listAllSearch its query n ! j) < relevance (listAllSearch its query n ! i)"
    using listAll_nth [of i its query n] listAll_nth [of j its query n]
    by (simp add: positionRelevance_decreasing)
qed

lemma search_listAll_cases:
  assumes "isListAllQuery query" "fst (search L now w query n) = Inr results"
  shows "results = [] \<or> results = listAllSearch (items (snd (search L now w query n))) query n"
  using assms by (auto simp: search_def searchBody_def Let_def split: if_splits)

lemma includeTypes_iff:
  "(Bookmark \<in> set (includeTypes query) \<longleftrightarrow>
      wantBookmarks query \<or> (\<not> wantHistory query \<and> \<not> wantReadingList query)) \<and>
   (History \<in> set (includeTypes query) \<longleftrightarrow>
      wantHistory query \<or> (\<not> wantBookmarks query \<and> \<not> wantReadingList query)) \<and>
   (ReadingList \<in> set (includeTypes query) \<longleftrightarrow>
      wantReadingList query \<or> (\<not> wantBookmarks query \<and> \<not> wantHistory query))"
  by (auto simp: includeTypes_def Let_def)

text \<open>
  C6, amended. For a list-all query the results hold only documents of the source types
  named in the query (all three types when none is named), are sorted by time stamp from
  newest to oldest (equal time stamps may follow one another), are at most \<open>maxResults\<close>
  many, all carry the score 10, and the result at position \<open>i\<close> carries the relevance
  \<open>(maxResults - i) / maxResults\<close>, which decreases strictly along the list.
\<close>

theorem listAll_results:
  assumes "isListAllQuery query" and "fst (search L now w query n) = Inr results"
  shows "(\<forall>r \<in> set results. ii_type (item r) \<in> set (includeTypes query)) \<and>
         (Bookmark \<in> set (includeTypes query) \<longleftrightarrow>
            wantBookmarks query \<or> (\<not> wantHistory query \<and> \<not> wantReadingList query)) \<and>
         (History \<in> set (includeTypes query) \<longleftrightarrow>
            wantHistory query \<or> (\<not> wantBookmarks query \<and> \<not> wantReadingList query)) \<and>
         (ReadingList \<in> set (includeTypes query) \<longleftrightarrow>
            wantReadingList query \<or> (\<not> wantBookmarks query \<and> \<not> wantHistory query)) \<and>
         sorted_wrt (\<lambda>a b. ii_timestamp (item b) \<le> ii_timestamp (item a)) results \<and>
         length results \<le> n \<and>
         (\<forall>i < length results.
            score (results ! i) = 10 \<and>
            relevance (results ! i) = (of_nat n - of_nat i) / of_nat n) \<and>
         sorted_wrt (\<lambda>a b. relevance b < relevance a) results"
proof -
  from search_listAll_cases [OF assms]
  show ?thesis
  proof
    assume "results = []"
    then show ?thesis using includeTypes_iff [of query] by simp
  next
    assume r: "results = listAllSearch (items (snd (search L now w query n))) query n"
    show ?thesis
      unfolding r
      using includeTypes_iff [of query] listAll_types listAll_sorted listAll_length
        listAll_nth listAll_relevance_sorted
      by (simp add: positionRelevance_def)
  qed
qed


lemma ex_list_query: "isListAllQuery (js ''list'')"
  by (simp add: str_defs)

lemma ex_list_blank: "trim (js ''list'') \<noteq> []"
  by (simp add: str_defs)

lemma ex_list_types: "includeTypes (js ''list'') = [Bookmark, History, ReadingList]"
  by (simp add: includeTypes_def str_defs)

lemma started_items:
  "items (started L its) = (if its = [] then [] else items (foldl (addToIndex L) ((freshWorld L)\<lparr>index := fs_new L, items := [], st_indexedItems := its\<rparr>) its))"
  "isInitialized (started L its)"
  by (simp_all add: started_def initialize_def freshWorld_def Let_def)

lemma started_same_time:
  "items (started specIndex [docAI, docBook]) = [(js ''bookmark_1'', docAI), (js ''bookmark_2'', docBook)]"
  by (simp add: started_items addToIndex_def docAI_def docBook_def js_def)

lemma search_list_started:
  "fst (search L now (started L its) (js ''list'') n) =
     (if items (started L its) = [] then Inr [] else Inr (listAllSearch (items (started L its)) (js ''list'') n))"
  by (simp add: search_def searchBody_def started_items(2) ex_list_query ex_list_blank Let_def)

text \<open>
  C6, as stated, fails: two bookmarks with the same time stamp are both listed, so the
  time stamps of the result are not strictly descending.
\<close>

theorem same_timestamp_counterexample:
  "isListAllQuery (js ''list'') \<and>
   fst (search specIndex 0 (started specIndex [docAI, docBook]) (js ''list'') 20) =
     Inr [\<lparr>item = docAI, score = 10, relevance = 1\<rparr>,
          \<lparr>item = docBook, score = 10, relevance = 19 / 20\<rparr>] \<and>
   ii_timestamp docAI = ii_timestamp docBook"
  unfolding search_list_started started_same_time
  by (simp add: ex_list_query listAllSearch_def ex_list_types positionRelevance_def)
     (simp add: docAI_def docBook_def)

lemma started_three:
  "items (started specIndex [docAI, docReact, docNews]) =
     [(js ''bookmark_1'', docAI), (js ''history_7'', docReact), (js ''reading_https://news.example'', docNews)]"
  by (simp add: started_items addToIndex_def docAI_def docReact_def docNews_def js_def)

lemma ex_list_three:
  "fst (search specIndex 0 (started specIndex [docAI, docReact, docNews]) (js ''list'') 2) =
     Inr [\<lparr>item = docNews, score = 10, relevance = 1\<rparr>,
          \<lparr>item = docReact, score = 10, relevance = 1 / 2\<rparr>]"
  unfolding search_list_started started_three
  by (simp add: listAllSearch_def ex_list_types positionRelevance_def)
     (simp add: docAI_def docReact_def docNews_def)

text \<open>
  C6, amended, at the query \<open>list\<close> with a limit of two over a bookmark, a history entry
  and a reading-list entry.
\<close>

theorem listAll_results_witness:
  "isListAllQuery (js ''list'') \<and>
   fst (search specIndex 0 (started specIndex [docAI, docReact, docNews]) (js ''list'') 2) =
     Inr [\<lparr>item = docNews, score = 10, relevance = 1\<rparr>,
          \<lparr>item = docReact, score = 10, relevance = 1 / 2\<rparr>] \<and>
   ii_timestamp docReact \<le> ii_timestamp docNews \<and>
   ii_type docNews \<in> set (includeTypes (js ''list'')) \<and>
   ii_type docReact \<in> set (includeTypes (js ''list''))"
  using listAll_results [OF ex_list_query ex_list_three] ex_list_query ex_list_three
  by simp

section \<open>Ranking of keyword results\<close>

lemma includesStr_self: "includesStr s s"
  by (cases s) (simp_all add: startsWith_def)

lemma score_exact:
  assumes "toLowerCase (ii_title it) = toLowerCase q"
  shows "15 \<le> calculateRelevanceScore now q it"
  using assms by (simp add: calculateRelevanceScore_def Let_def includesStr_self)

lemma score_inexact:
  assumes "toLowerCase (ii_title it) \<noteq> toLowerCase q"
  shows "calculateRelevanceScore now q it \<le> 17 / 2"
  using assms by (simp add: calculateRelevanceScore_def Let_def)

lemma positionRelevance_bounds:
  assumes "i < n"
  shows "0 < positionRelevance n i \<and> positionRelevance n i \<le> 1"
  using assms by (simp add: positionRelevance_def)

lemma scoreMatches_member:
  assumes "r \<in> set (scoreMatches now its cq n ids)"
  shows "score r = calculateRelevanceScore now cq (item r) \<and>
         0 < relevance r \<and> relevance r \<le> 1 \<and>
         (\<exists>k < min (length ids) n. map_of its (ids ! k) = Some (item r))"
proof -
  from assms obtain k itemId x where
    e: "(k, itemId) \<in> set (enumerate 0 (take (min (length ids) n) ids))"
    and m: "map_of its itemId = Some x"
    and r: "r = \<lparr>item = x, score = calculateRelevanceScore now cq x,
                 relevance = positionRelevance n k\<rparr>"
    by (auto simp: scoreMatches_def split: option.splits)
  from e have k: "k < min (length ids) n" and i: "ids ! k = itemId"
    by (auto simp: in_set_enumerate_eq)
  from k have "k < n" by simp
  with positionRelevance_bounds [of k n] r m k i show ?thesis by auto
qed

lemma search_keyword_cases:
  assumes "\<not> isListAllQuery query" "fst (search L now w query n) = Inr results"
  shows "results = [] \<or>
         (\<exists>raw. rawMatches L (snd (search L now w query n)) query n = Inr raw \<and>
            results = sort_key (\<lambda>r. - (score r + relevance r))
               (scoreMatches now (items (snd (search L now w query n))) (cleanQuery query) n raw))"
  using assms
  by (auto simp: search_def searchBody_def keywordSearch_def Let_def split: if_splits sum.splits)

text \<open>
  C4, amended. In the results of a keyword query, every result whose lower-cased title
  equals the cleaned query (the query lower-cased, stop words removed, trimmed) is ranked
  before every result whose title does not. So a document whose title is the cleaned
  query comes first among the results whenever it is returned and no other returned
  document has that title.
\<close>

theorem exact_title_before_others:
  assumes "\<not> isListAllQuery query"
    and "fst (search L now w query n) = Inr results"
    and "i < j" and "j < length results"
    and "toLowerCase (ii_title (item (results ! j))) = toLowerCase (cleanQuery query)"
  shows "toLowerCase (ii_title (item (results ! i))) = toLowerCase (cleanQuery query)"
proof -
  let ?w = "snd (search L now w query n)"
  from assms(4) have "results \<noteq> []" by auto
  with search_keyword_cases [OF assms(1,2)] obtain raw where
    res: "results = sort_key (\<lambda>r. - (score r + relevance r))
               (scoreMatches now (items ?w) (cleanQuery query) n raw)"
    by blast
  have mem: "\<And>r. r \<in> set results \<Longrightarrow>
      score r = calculateRelevanceScore now (cleanQuery query) (item r) \<and>
      0 < relevance r \<and> relevance r \<le> 1"
    unfolding res using scoreMatches_member by simp
  have "sorted (map (\<lambda>r. - (score r + relevance r)) results)"
    unfolding res by (rule sorted_sort_key)
  then have "- (score (results ! i) + relevance (results ! i))
               \<le> - (score (results ! j) + relevance (results ! j))"
    using sorted_nth_mono [of "map (\<lambda>r. - (score r + relevance r)) results" i j] assms(3,4)
    by simp
  moreover have "15 \<le> score (results ! j)" "0 < relevance (results ! j)"
    using mem [of "results ! j"] assms(4,5) by (simp_all add: score_exact)
  moreover have "relevance (results ! i) \<le> 1"
    and si: "score (results ! i) = calculateRelevanceScore now (cleanQuery query) (item (results ! i))"
    using mem [of "results ! i"] assms(3,4) by simp_all
  ultimately have "17 / 2 < score (results ! i)" by simp
  then show ?thesis using score_inexact [of "item (results ! i)" "cleanQuery query" now] si
    by force
qed

lemma ex_ai_keyword: "\<not> isListAllQuery (js ''AI'')"
  by (simp add: str_defs)

lemma ex_ai_terms: "extractTerms (cleanQuery (js ''AI'')) = []"
  by (simp add: str_defs)

lemma started_one:
  "items (started specIndex [docAI]) = [(js ''bookmark_1'', docAI)]"
  by (simp add: started_items addToIndex_def docAI_def js_def)

lemma ex_getbook_keyword: "\<not> isListAllQuery (js ''Get the book'')"
  by (simp add: str_defs)

lemma ex_getbook_clean: "cleanQuery (js ''Get the book'') = js ''book''"
  by (simp add: str_defs)

lemma ex_book_terms: "extractTerms (js ''book'') = [js ''book'']"
  by (simp add: str_defs)

lemma started_books:
  "started specIndex [docGetBook, docBook] =
     \<lparr>index = [(js ''bookmark_3'', js ''Get the book https://g.example''),
               (js ''bookmark_2'', js ''Book https://b.example'')],
      items = [(js ''bookmark_3'', docGetBook), (js ''bookmark_2'', docBook)],
      isInitialized = True, st_bookmarks = [], st_history = [], st_readingList = [],
      st_indexedItems = [docGetBook, docBook], st_searchIndex = None\<rparr>"
  by (simp add: state_defs docGetBook_def docBook_def js_def)

lemma ex_book_matches:
  "searchTerm [(js ''bookmark_3'', js ''Get the book https://g.example''),
               (js ''bookmark_2'', js ''Book https://b.example'')] (js ''book'') 40
    = [js ''bookmark_3'', js ''bookmark_2'']"
  by (simp add: searchTerm_def tokenize_def str_defs)

lemma ex_getbook_nonblank: "trim (js ''Get the book'') \<noteq> []"
  by (simp add: str_defs)

lemma ex_score_getbook: "calculateRelevanceScore 5000 (js ''book'') docGetBook = 17 / 2"
  by (simp add: calculateRelevanceScore_def docGetBook_def str_defs)

lemma ex_score_book: "calculateRelevanceScore 5000 (js ''book'') docBook = 37 / 2"
  by (simp add: calculateRelevanceScore_def docBook_def str_defs)

lemma ex_ids_distinct:
  "js ''bookmark_3'' \<noteq> js ''bookmark_2''" "js ''bookmark_2'' \<noteq> js ''bookmark_3''"
  by (simp_all add: js_def)

text \<open>
  C4, as stated, fails. The query \<open>AI\<close> equals the title of the only document and returns
  nothing, since search terms of fewer than three characters are dropped. The query
  \<open>Get the book\<close> equals the title of one document, but is scored as \<open>book\<close> once the
  stop words are removed, and the document titled \<open>Book\<close> is ranked first.
\<close>

theorem exact_title_counterexample:
  "ii_title docAI = js ''AI'' \<and> \<not> isListAllQuery (js ''AI'') \<and>
   map_of (items (started specIndex [docAI])) (ii_id docAI) = Some docAI \<and>
   fst (search specIndex 5000 (started specIndex [docAI]) (js ''AI'') 20) = Inr [] \<and>
   ii_title docGetBook = js ''Get the book'' \<and> \<not> isListAllQuery (js ''Get the book'') \<and>
   fst (search specIndex 5000 (started specIndex [docGetBook, docBook]) (js ''Get the book'') 20) =
     Inr [\<lparr>item = docBook, score = 37 / 2, relevance = 19 / 20\<rparr>,
          \<lparr>item = docGetBook, score = 17 / 2, relevance = 1\<rparr>]"
proof -
  have a: "fst (search specIndex 5000 (started specIndex [docAI]) (js ''AI'') 20) = Inr []"
    by (simp add: search_def searchBody_def keywordSearch_def rawMatches_def scoreMatches_def
          ex_ai_keyword ex_ai_terms started_items(2) Let_def)
  have b: "fst (search specIndex 5000 (started specIndex [docGetBook, docBook]) (js ''Get the book'') 20) =
     Inr [\<lparr>item = docBook, score = 37 / 2, relevance = 19 / 20\<rparr>,
          \<lparr>item = docGetBook, score = 17 / 2, relevance = 1\<rparr>]"
    unfolding started_books
    by (simp add: search_def searchBody_def keywordSearch_def rawMatches_def scoreMatches_def
          ex_getbook_keyword ex_getbook_clean ex_book_terms ex_getbook_nonblank Let_def
          specIndex_def ex_book_matches ex_ids_distinct ex_score_getbook ex_score_book
          positionRelevance_def enumerate_eq_zip upt_rec)
  show ?thesis
    using a b ex_ai_keyword ex_getbook_keyword started_one
    by (simp add: docAI_def docGetBook_def)
qed

lemma ex_book_keyword: "\<not> isListAllQuery (js ''Book'')"
  by (simp add: str_defs)

lemma ex_book_clean: "cleanQuery (js ''Book'') = js ''book''"
  by (simp add: str_defs)

lemma ex_book_nonblank: "trim (js ''Book'') \<noteq> []"
  by (simp add: str_defs)

lemma started_two_books:
  "started specIndex [docBook, docBookVisit] =
     \<lparr>index = [(js ''bookmark_2'', js ''Book https://b.example''),
               (js ''history_9'', js ''book https://v.example'')],
      items = [(js ''bookmark_2'', docBook), (js ''history_9'', docBookVisit)],
      isInitialized = True, st_bookmarks = [], st_history = [], st_readingList = [],
      st_indexedItems = [docBook, docBookVisit], st_searchIndex = None\<rparr>"
  by (simp add: state_defs docBookVisit_def docBook_def js_def)

lemma ex_two_books_matches:
  "searchTerm [(js ''bookmark_2'', js ''Book https://b.example''),
               (js ''history_9'', js ''book https://v.example'')] (js ''book'') 40
    = [js ''bookmark_2'', js ''history_9'']"
  by (simp add: searchTerm_def tokenize_def str_defs)

lemma ex_score_visit: "calculateRelevanceScore 5000 (js ''book'') docBookVisit = 18"
  by (simp add: calculateRelevanceScore_def docBookVisit_def str_defs)

lemma ex_ids_distinct2:
  "js ''history_9'' \<noteq> js ''bookmark_2''" "js ''bookmark_2'' \<noteq> js ''history_9''"
  by (simp_all add: js_def)

lemma ex_two_books_search:
  "fst (search specIndex 5000 (started specIndex [docBook, docBookVisit]) (js ''Book'') 20) =
     Inr [\<lparr>item = docBook, score = 37 / 2, relevance = 1\<rparr>,
          \<lparr>item = docBookVisit, score = 18, relevance = 19 / 20\<rparr>]"
  unfolding started_two_books
  by (simp add: search_def searchBody_def keywordSearch_def rawMatches_def scoreMatches_def
        ex_book_keyword ex_book_clean ex_book_terms ex_book_nonblank Let_def
        specIndex_def ex_two_books_matches ex_ids_distinct2 ex_score_visit ex_score_book
        positionRelevance_def enumerate_eq_zip upt_rec)

lemma ex_visit_title: "toLowerCase (ii_title docBookVisit) = toLowerCase (cleanQuery (js ''Book''))"
  unfolding ex_book_clean
  by (simp add: docBookVisit_def js_def toLowerCase_def toLowerUnit_def)

text \<open>
  C4, amended, at the query \<open>Book\<close> over two documents titled \<open>Book\<close> and \<open>book\<close>.
\<close>

theorem exact_title_before_others_witness:
  "\<not> isListAllQuery (js ''Book'') \<and>
   fst (search specIndex 5000 (started specIndex [docBook, docBookVisit]) (js ''Book'') 20) =
     Inr [\<lparr>item = docBook, score = 37 / 2, relevance = 1\<rparr>,
          \<lparr>item = docBookVisit, score = 18, relevance = 19 / 20\<rparr>] \<and>
   toLowerCase (ii_title docBookVisit) = toLowerCase (cleanQuery (js ''Book'')) \<and>
   toLowerCase (ii_title docBook) = toLowerCase (cleanQuery (js ''Book''))"
  using exact_title_before_others [OF ex_book_keyword ex_two_books_search, of 0 1]
    ex_book_keyword ex_two_books_search ex_visit_title
  by simp

section \<open>The accumulated term matches\<close>

lemma searchEachTerm_length:
  assumes "\<forall>t k r. fs_search L ix t k = Inr r \<longrightarrow> length r \<le> k"
    and "searchEachTerm L ix cap ts = Inr rs"
  shows "length rs \<le> length ts * cap"
  using assms(2)
proof (induction ts arbitrary: rs)
  case Nil
  then show ?case by simp
next
  case (Cons t ts)
  from Cons.prems obtain r rest where
    r: "fs_search L ix t cap = Inr r" and rest: "searchEachTerm L ix cap ts = Inr rest"
    and rs: "rs = r @ rest"
    by (auto split: sum.splits)
  from assms(1) r have "length r \<le> cap" by blast
  moreover from Cons.IH [OF rest] have "length rest \<le> length ts * cap" .
  ultimately show ?case using rs by simp
qed

lemma dedupe_set: "set (dedupe seen xs) = set xs - set seen"
  by (induction xs arbitrary: seen) auto

lemma dedupe_distinct: "distinct (dedupe seen xs)"
  by (induction xs arbitrary: seen) (auto simp: dedupe_set)

lemma dedupe_length: "length (dedupe seen xs) \<le> length xs"
  by (induction xs arbitrary: seen) (auto simp: le_SucI)

lemma concat_singletons_length:
  assumes "\<And>x. x \<in> set xs \<Longrightarrow> length (f x) \<le> 1"
  shows "length (concat (map f xs)) \<le> length xs"
  using assms
proof (induction xs)
  case Nil
  then show ?case by simp
next
  case (Cons x xs)
  then have "length (f x) \<le> 1" "length (concat (map f xs)) \<le> length xs" by simp_all
  then show ?case by simp
qed

lemma scoreMatches_length: "length (scoreMatches now its cq n ids) \<le> n"
proof -
  have "length (scoreMatches now its cq n ids)
          \<le> length (enumerate 0 (take (min (length ids) n) ids))"
    unfolding scoreMatches_def
    by (rule concat_singletons_length) (auto split: option.splits)
  then show ?thesis by simp
qed

lemma remdups_snoc: "remdups (ys @ [x]) = remdups (filter (\<lambda>y. y \<noteq> x) ys) @ [x]"
  by (induction ys) auto

lemma dedupe_remdups_gen:
  "dedupe seen xs = rev (remdups (rev (filter (\<lambda>y. y \<notin> set seen) xs)))"
proof (induction xs arbitrary: seen)
  case Nil
  then show ?case by simp
next
  case (Cons x xs)
  show ?case
  proof (cases "x \<in> set seen")
    case True
    then show ?thesis using Cons.IH [of seen] by simp
  next
    case False
    let ?F = "filter (\<lambda>y. y \<notin> set seen) xs"
    have "filter (\<lambda>y. y \<noteq> x) (rev ?F) = rev (filter (\<lambda>y. y \<notin> set (x # seen)) xs)"
      by (simp add: rev_filter [symmetric] conj_commute)
    then have "rev (remdups (rev ?F @ [x])) =
                 x # rev (remdups (rev (filter (\<lambda>y. y \<notin> set (x # seen)) xs)))"
      by (simp add: remdups_snoc)
    then show ?thesis using False Cons.IH [of "x # seen"] by simp
  qed
qed

lemma dedupe_first_seen: "dedupe [] xs = rev (remdups (rev xs))"
  by (simp add: dedupe_remdups_gen)

text \<open>
  C5, amended. In the keyword strategy every single term search is capped at
  \<open>2 * limit\<close> matches. The accumulated matches are the term results in order with
  every id kept at its first occurrence only; on an index whose searches respect their
  limit they are at most \<open>2 * limit\<close> times the number of search terms, and at most
  \<open>limit\<close> of them are scored.
\<close>

theorem rawMatches_bound:
  assumes "\<forall>t k r. fs_search L (index w) t k = Inr r \<longrightarrow> length r \<le> k"
    and "rawMatches L w query n = Inr ids"
  shows "(\<exists>searchResults.
            searchEachTerm L (index w) (n * 2) (extractTerms (cleanQuery query)) = Inr searchResults \<and>
            ids = rev (remdups (rev searchResults))) \<and>
         distinct ids \<and>
         length ids \<le> length (extractTerms (cleanQuery query)) * (2 * n) \<and>
         length (scoreMatches now (items w) (cleanQuery query) n ids) \<le> n"
proof -
  from assms(2) obtain rs where
    rs: "searchEachTerm L (index w) (n * 2) (extractTerms (cleanQuery query)) = Inr rs"
    and ids: "ids = dedupe [] rs"
    by (auto simp: rawMatches_def split: sum.splits)
  have "length rs \<le> length (extractTerms (cleanQuery query)) * (n * 2)"
    using assms(1) rs by (rule searchEachTerm_length)
  then have "length ids \<le> length (extractTerms (cleanQuery query)) * (2 * n)"
    using dedupe_length [of "[]" rs] ids by (simp add: mult.commute)
  moreover have "\<exists>searchResults.
            searchEachTerm L (index w) (n * 2) (extractTerms (cleanQuery query)) = Inr searchResults \<and>
            ids = rev (remdups (rev searchResults))"
    using rs ids by (simp add: dedupe_first_seen)
  moreover have "distinct ids"
    using ids by (simp add: dedupe_distinct)
  ultimately show ?thesis using scoreMatches_length by simp
qed

lemma ex_abc_terms:
  "extractTerms (cleanQuery (js ''alpha beta gamma'')) = [js ''alpha'', js ''beta'', js ''gamma'']"
  by (simp add: str_defs)

lemma started_abc:
  "index (started specIndex [docAlpha, docBeta, docGamma]) =
     [(js ''bookmark_5'', js ''Alpha https://a.example''),
      (js ''bookmark_6'', js ''Beta https://b.example''),
      (js ''bookmark_7'', js ''Gamma https://c.example'')]"
  by (simp add: state_defs docAlpha_def docBeta_def docGamma_def js_def)

lemma ex_abc_matches:
  "searchTerm [(js ''bookmark_5'', js ''Alpha https://a.example''),
      (js ''bookmark_6'', js ''Beta https://b.example''),
      (js ''bookmark_7'', js ''Gamma https://c.example'')] (js ''alpha'') 2 = [js ''bookmark_5'']"
  "searchTerm [(js ''bookmark_5'', js ''Alpha https://a.example''),
      (js ''bookmark_6'', js ''Beta https://b.example''),
      (js ''bookmark_7'', js ''Gamma https://c.example'')] (js ''beta'') 2 = [js ''bookmark_6'']"
  "searchTerm [(js ''bookmark_5'', js ''Alpha https://a.example''),
      (js ''bookmark_6'', js ''Beta https://b.example''),
      (js ''bookmark_7'', js ''Gamma https://c.example'')] (js ''gamma'') 2 = [js ''bookmark_7'']"
  by (simp_all add: searchTerm_def tokenize_def str_defs)

lemma ex_abc_raw:
  "rawMatches specIndex (started specIndex [docAlpha, docBeta, docGamma]) (js ''alpha beta gamma'') 1 =
     Inr [js ''bookmark_5'', js ''bookmark_6'', js ''bookmark_7'']"
  unfolding rawMatches_def ex_abc_terms started_abc
  by (simp add: specIndex_def ex_abc_matches) (simp add: js_def)

text \<open>
  C5, as stated, fails: with a limit of one, three terms that each match one document
  accumulate three matches, more than \<open>2 * limit\<close>.
\<close>

theorem union_exceeds_counterexample:
  "rawMatches specIndex (started specIndex [docAlpha, docBeta, docGamma]) (js ''alpha beta gamma'') 1 =
     Inr [js ''bookmark_5'', js ''bookmark_6'', js ''bookmark_7''] \<and>
   \<not> length [js ''bookmark_5'', js ''bookmark_6'', js ''bookmark_7''] \<le> 2 * 1"
  using ex_abc_raw by simp

lemma specIndex_capped: "\<forall>t k r. fs_search specIndex ix t k = Inr r \<longrightarrow> length r \<le> k"
  by (simp add: specIndex_def searchTerm_def)

text \<open>
  C5, amended, at the same query: three terms, a limit of one, three distinct matches.
\<close>

theorem rawMatches_bound_witness:
  "rawMatches specIndex (started specIndex [docAlpha, docBeta, docGamma]) (js ''alpha beta gamma'') 1 =
     Inr [js ''bookmark_5'', js ''bookmark_6'', js ''bookmark_7''] \<and>
   distinct [js ''bookmark_5'', js ''bookmark_6'', js ''bookmark_7''] \<and>
   length [js ''bookmark_5'', js ''bookmark_6'', js ''bookmark_7''] \<le> 3 * (2 * 1) \<and>
   length (scoreMatches 5000 (items (started specIndex [docAlpha, docBeta, docGamma]))
             (cleanQuery (js ''alpha beta gamma'')) 1
             [js ''bookmark_5'', js ''bookmark_6'', js ''bookmark_7'']) \<le> 1"
  using rawMatches_bound [OF specIndex_capped ex_abc_raw, of 5000] ex_abc_raw ex_abc_terms
  by simp

section \<open>Rebuilding\<close>

lemma rebuildSuspensions_hd:
  "rebuildSuspensions L now w \<noteq> [] \<and> hd (rebuildSuspensions L now w) = rebuildClear L w"
  by (simp add: rebuildSuspensions_def Let_def)

lemma rebuildSuspensions_tl:
  assumes "w' \<in> set (tl (rebuildSuspensions L now w))"
  shows "items w' = items (rebuildFill L now (rebuildClear L w)) \<and>
         index w' = index (rebuildFill L now (rebuildClear L w))"
  using assms
  by (auto simp: rebuildSuspensions_def Let_def persistIndex_def
           split: option.splits export_outcome.splits)

lemma rebuildIndex_final:
  "items (snd (rebuildIndex L now w)) = items (rebuildFill L now (rebuildClear L w)) \<and>
   index (snd (rebuildIndex L now w)) = index (rebuildFill L now (rebuildClear L w))"
  by (auto simp: rebuildIndex_def Let_def persistIndex_def
           split: option.splits export_outcome.splits)










section \<open>Removal\<close>

lemma keyed_Nil: "keyedById []"
  by (simp add: keyedById_def)

lemma keyed_update:
  "keyedById its \<Longrightarrow> keyedById (AList.update (ii_id it) it its)"
  by (induction its) (auto simp: keyedById_def)

lemma keyed_delete: "keyedById its \<Longrightarrow> keyedById (AList.delete k its)"
  by (induction its) (auto simp: keyedById_def)

lemma keyed_addToIndex:
  "keyedById (items w) \<Longrightarrow> keyedById (items (addToIndex L w it))"
  by (simp add: addToIndex_def keyed_update)

lemma keyed_foldl:
  "keyedById (items w) \<Longrightarrow> keyedById (items (foldl (addToIndex L) w its))"
  by (induction its arbitrary: w) (simp_all add: keyed_addToIndex)

lemma keyed_initialize:
  "keyedById (items w) \<Longrightarrow> keyedById (items (initialize L w))"
  by (simp add: initialize_def Let_def keyed_foldl keyed_Nil)

lemma persistIndex_items:
  "persistIndex L w = Some w' \<Longrightarrow> items w' = items w \<and> isInitialized w' = isInitialized w"
  by (auto simp: persistIndex_def split: export_outcome.splits)

lemma keyed_addItem:
  assumes "keyedById (items w)"
  shows "keyedById (items (snd (addItem L w it)))"
proof -
  let ?w1 = "if \<not> isInitialized w then initialize L w else w"
  have "keyedById (items (addToIndex L ?w1 it))"
    using assms by (simp add: keyed_addToIndex keyed_initialize)
  then show ?thesis
    by (auto simp: addItem_def Let_def split: option.splits dest: persistIndex_items)
qed

lemma keyed_removeItem:
  assumes "keyedById (items w)"
  shows "keyedById (items (snd (removeItem L w itemId)))"
proof -
  let ?w1 = "if \<not> isInitialized w then initialize L w else w"
  have "keyedById (items ?w1)" using assms by (simp add: keyed_initialize)
  then show ?thesis
    by (auto simp: removeItem_def Let_def keyed_delete split: option.splits sum.splits
             dest: persistIndex_items)
qed

lemma keyed_updateItem:
  assumes "keyedById (items w)"
  shows "keyedById (items (snd (updateItem L w it)))"
proof (cases "removeItem L w (ii_id it)")
  case (Pair out w1)
  then have "keyedById (items w1)" using keyed_removeItem [OF assms, of L "ii_id it"] by simp
  then show ?thesis using Pair keyed_addItem [of w1 L it]
    by (cases out) (simp_all add: updateItem_def)
qed

lemma keyed_rebuildIndex: "keyedById (items (snd (rebuildIndex L now w)))"
proof -
  have "keyedById (items (rebuildFill L now (rebuildClear L w)))"
    by (simp add: rebuildFill_def rebuildClear_def Let_def keyed_foldl keyed_Nil)
  then show ?thesis
    by (auto simp: rebuildIndex_def Let_def split: option.splits dest: persistIndex_items)
qed

lemma keyed_suspension:
  assumes "w' \<in> set (rebuildSuspensions L now w)"
  shows "keyedById (items w')"
proof (cases "w' = hd (rebuildSuspensions L now w)")
  case True
  then show ?thesis by (simp add: rebuildSuspensions_hd rebuildClear_def keyed_Nil)
next
  case False
  with assms have "w' \<in> set (tl (rebuildSuspensions L now w))"
    using rebuildSuspensions_hd [of L now w]
    by (cases "rebuildSuspensions L now w") auto
  then have "items w' = items (snd (rebuildIndex L now w))"
    using rebuildSuspensions_tl rebuildIndex_final by metis
  then show ?thesis by (simp add: keyed_rebuildIndex)
qed

lemma search_state: "snd (search L now w query n) = (if isInitialized w then w else initialize L w)"
  by (simp add: search_def Let_def)

lemma reachable_keyed: "reachable L w \<Longrightarrow> keyedById (items w)"
proof (induction rule: reachable.induct)
  case (constructed w)
  then show ?case by (simp add: keyed_Nil)
next
  case (initialized w)
  then show ?case by (simp add: keyed_initialize)
next
  case (searched w now query n)
  then show ?case by (simp add: search_state keyed_initialize)
next
  case (added w it)
  then show ?case by (simp add: keyed_addItem)
next
  case (removed w itemId)
  then show ?case by (simp add: keyed_removeItem)
next
  case (updated w it)
  then show ?case by (simp add: keyed_updateItem)
next
  case (rebuilding w w' now)
  then show ?case by (simp add: keyed_suspension)
next
  case (rebuilt w now)
  then show ?case by (simp add: keyed_rebuildIndex)
next
  case (cleared w)
  then show ?case by (simp add: clearIndex_def keyed_Nil)
next
  case (stored w bs hs rs its sx)
  then show ?case by simp
qed

lemma search_results_from_items:
  assumes "fst (search L now w query n) = Inr results" and "r \<in> set results"
  shows "\<exists>k. (k, item r) \<in> set (items (snd (search L now w query n)))"
proof (cases "isListAllQuery query")
  case True
  from search_listAll_cases [OF True assms(1)] assms(2)
  have "r \<in> set (listAllSearch (items (snd (search L now w query n))) query n)" by auto
  then have "item r \<in> snd ` set (items (snd (search L now w query n)))"
    using listAll_types by blast
  then show ?thesis by force
next
  case False
  from search_keyword_cases [OF False assms(1)] assms(2) obtain raw where
    "r \<in> set (scoreMatches now (items (snd (search L now w query n))) (cleanQuery query) n raw)"
    by auto
  then obtain k where
    "map_of (items (snd (search L now w query n))) (raw ! k) = Some (item r)"
    using scoreMatches_member by blast
  then show ?thesis by (blast dest: map_of_SomeD)
qed

lemma initialize_flag: "isInitialized (initialize L w)"
  by (simp add: initialize_def Let_def)

lemma removeItem_resolved:
  assumes "removeItem L w itemId = (Resolved, w')"
  shows "isInitialized w' \<and>
         items w' = AList.delete itemId (items (if isInitialized w then w else initialize L w))"
  using assms initialize_flag [of L w]
  by (auto simp: removeItem_def Let_def split: sum.splits option.splits if_splits
           dest!: persistIndex_items)

text \<open>
  C7. In every state reached from a freshly constructed indexer by any sequence of the
  operations of \<open>SearchIndexer\<close> (and any changes to storage), once \<open>removeItem(id)\<close> has
  resolved no search returns a result whose item has that id, however often the item was
  added before; and a search leaves that state as it is, so this holds for every later
  search as well.
\<close>

theorem removed_item_not_searchable:
  assumes "reachable L w"
    and "removeItem L w itemId = (Resolved, w')"
    and "fst (search L now w' query n) = Inr results"
  shows "(\<forall>r \<in> set results. ii_id (item r) \<noteq> itemId) \<and> snd (search L now w' query n) = w'"
proof -
  let ?w1 = "if isInitialized w then w else initialize L w"
  from removeItem_resolved [OF assms(2)]
  have init: "isInitialized w'" and its: "items w' = AList.delete itemId (items ?w1)" by simp_all
  from init have same: "snd (search L now w' query n) = w'" by (simp add: search_state)
  have "keyedById (items ?w1)"
    using reachable_keyed [OF assms(1)] by (simp add: keyed_initialize)
  then have keyed: "\<And>k x. (k, x) \<in> set (items ?w1) \<Longrightarrow> ii_id x = k"
    by (auto simp: keyedById_def list_all_iff)
  have "\<forall>r \<in> set results. ii_id (item r) \<noteq> itemId"
  proof
    fix r assume "r \<in> set results"
    with search_results_from_items [OF assms(3)] same its obtain k where
      "(k, item r) \<in> set (AList.delete itemId (items ?w1))" by auto
    then have "k \<noteq> itemId" "(k, item r) \<in> set (items ?w1)"
      by (auto simp: AList.delete_eq)
    with keyed show "ii_id (item r) \<noteq> itemId" by auto
  qed
  with same show ?thesis by simp
qed

lemma addedTwice_eq:
  "addedTwice =
     \<lparr>index = [(js ''bookmark_2'', js ''Book https://b.example''),
               (js ''bookmark_1'', js ''AI https://ai.example'')],
      items = [(js ''bookmark_2'', docBook), (js ''bookmark_1'', docAI)],
      isInitialized = True, st_bookmarks = [], st_history = [], st_readingList = [],
      st_indexedItems = [docBook, docAI, docAI],
      st_searchIndex =
        Some (js ''bookmark_2'' @ [10] @ js ''Book https://b.example'' @ [10] @
              js ''bookmark_1'' @ [10] @ js ''AI https://ai.example'' @ [10])\<rparr>"
  by (simp add: addedTwice_def addItem_def state_defs Let_def docAI_def docBook_def js_def)

lemma addedTwice_reachable: "reachable specIndex addedTwice"
  unfolding addedTwice_def
  by (intro reachable.added reachable.constructed) (simp_all add: freshWorld_def)

lemma ex_remove_ai:
  "removeItem specIndex addedTwice (js ''bookmark_1'') =
     (Resolved,
      \<lparr>index = [(js ''bookmark_2'', js ''Book https://b.example'')],
       items = [(js ''bookmark_2'', docBook)],
       isInitialized = True, st_bookmarks = [], st_history = [], st_readingList = [],
       st_indexedItems = [docBook],
       st_searchIndex = Some (js ''bookmark_2'' @ [10] @ js ''Book https://b.example'' @ [10])\<rparr>)"
  unfolding addedTwice_eq
  by (simp add: removeItem_def state_defs Let_def docAI_def docBook_def js_def)

lemma ex_search_after_remove:
  "fst (search specIndex 5000
      \<lparr>index = [(js ''bookmark_2'', js ''Book https://b.example'')],
       items = [(js ''bookmark_2'', docBook)],
       isInitialized = True, st_bookmarks = [], st_history = [], st_readingList = [],
       st_indexedItems = [docBook],
       st_searchIndex = Some (js ''bookmark_2'' @ [10] @ js ''Book https://b.example'' @ [10])\<rparr>
      (js ''list'') 20) = Inr [\<lparr>item = docBook, score = 10, relevance = 1\<rparr>]"
  by (simp add: search_def searchBody_def ex_list_query ex_list_blank Let_def
        listAllSearch_def ex_list_types positionRelevance_def)
     (simp add: docBook_def)

text \<open>
  C7, at a state where one document was added once and another twice: after one
  \<open>removeItem\<close> of the latter, listing everything returns the former alone.
\<close>

theorem removed_item_not_searchable_witness:
  "fst (removeItem specIndex addedTwice (js ''bookmark_1'')) = Resolved \<and>
   fst (search specIndex 5000 (snd (removeItem specIndex addedTwice (js ''bookmark_1'')))
          (js ''list'') 20) = Inr [\<lparr>item = docBook, score = 10, relevance = 1\<rparr>] \<and>
   ii_id docBook \<noteq> js ''bookmark_1''"
  using removed_item_not_searchable [OF addedTwice_reachable ex_remove_ai ex_search_after_remove]
    ex_remove_ai ex_search_after_remove
  by simp

end
